theory Spec2Isabelle
  imports Main
begin

section \<open>C strings and the libc functions the loader calls\<close>

text \<open>
  A C string is a \<open>char list\<close>; its terminating NUL is implicit, so reading the
  string at its length gives NUL. The loader only ever reads inside the string or at
  its terminator; \<open>cnth\<close> answers NUL for any other index, which the code never asks
  for. \<open>cdrop\<close> is the pointer arithmetic \<open>name + k\<close>.
\<close>

abbreviation (input) NUL :: char where
  "NUL \<equiv> CHR 0x00"

definition cnth :: "string \<Rightarrow> int \<Rightarrow> char" where
  "cnth s i = (if 0 \<le> i \<and> i < int (length s) then s ! nat i else NUL)"

definition cdrop :: "string \<Rightarrow> int \<Rightarrow> string" where
  "cdrop s k = drop (nat k) s"

definition strlen :: "string \<Rightarrow> int" where
  "strlen s = int (length (takeWhile (\<lambda>c. c \<noteq> NUL) s))"

definition isdigit :: "char \<Rightarrow> bool" where
  "isdigit c = (c \<in> set ''0123456789'')"

definition isspace :: "char \<Rightarrow> bool" where
  "isspace c = (c \<in> set [CHR '' '', CHR 0x09, CHR 0x0A, CHR 0x0B, CHR 0x0C, CHR 0x0D])"

definition digit_val :: "char \<Rightarrow> int" where
  "digit_val c = int (of_char c) - 48"

fun digits_value :: "int \<Rightarrow> string \<Rightarrow> int" where
  "digits_value acc [] = acc"
| "digits_value acc (c # cs) = digits_value (10 * acc + digit_val c) cs"

text \<open>
  The value of a number that does not fit: \<open>atoi\<close> and the \<open>%d\<close> of \<open>sscanf\<close>
  convert with \<open>strtol\<close> and store the result in an \<open>int\<close>. With a \<open>long\<close> of 64
  bits and an \<open>int\<close> of 32 bits, as on the machines the loader is built for,
  \<open>strtol\<close> stops at \<open>LONG_MIN\<close> and \<open>LONG_MAX\<close> (\<open>c_long\<close>) and the store keeps
  the low 32 bits as a signed number (\<open>c_int\<close>). The C standard itself leaves the
  result of \<open>atoi\<close> undefined there.
\<close>

definition c_long :: "int \<Rightarrow> int" where
  "c_long v = max (- (2 ^ 63)) (min (2 ^ 63 - 1) v)"

definition c_int :: "int \<Rightarrow> int" where
  "c_int v = (v + 2 ^ 31) mod 2 ^ 32 - 2 ^ 31"

text \<open>
  One \<open>%d\<close> conversion of \<open>sscanf\<close>, which is also what \<open>atoi\<close> reads: white space
  is skipped, one sign is taken, then the longest run of decimal digits. With no digit
  the conversion fails. The result is the \<open>int\<close> read and the rest of the input.
\<close>

definition scan_int :: "string \<Rightarrow> (int \<times> string) option" where
  "scan_int s =
     (let s1 = dropWhile isspace s;
          neg = (s1 \<noteq> [] \<and> hd s1 = CHR ''-'');
          s2 = (if s1 \<noteq> [] \<and> (hd s1 = CHR ''-'' \<or> hd s1 = CHR ''+'') then tl s1 else s1);
          ds = takeWhile isdigit s2
      in if ds = [] then None
         else Some (c_int (c_long (if neg then - digits_value 0 ds else digits_value 0 ds)),
                    dropWhile isdigit s2))"

definition atoi :: "string \<Rightarrow> int" where
  "atoi s = (case scan_int s of None \<Rightarrow> 0 | Some (v, r) \<Rightarrow> v)"

text \<open>
  \<open>sscanf_ints sep n s\<close> is \<open>sscanf\<close> with the format \<open>%d\<close> followed by \<open>n\<close> times
  \<open>sep%d\<close>: \<open>sscanf_ints CHR ''/'' 1\<close> is the format \<open>%d/%d\<close> and
  \<open>sscanf_ints CHR '':'' 2\<close> is \<open>%d:%d:%d\<close>. It returns the values converted, in
  order; the number \<open>sscanf\<close> returns is the length of that list (or \<open>EOF\<close> where the
  list is empty, which the loader does not tell apart).
\<close>

fun sscanf_ints :: "char \<Rightarrow> nat \<Rightarrow> string \<Rightarrow> int list" where
  "sscanf_ints sep 0 s = (case scan_int s of None \<Rightarrow> [] | Some (v, r) \<Rightarrow> [v])"
| "sscanf_ints sep (Suc n) s =
     (case scan_int s of
        None \<Rightarrow> []
      | Some (v, r) \<Rightarrow>
          (case r of
             [] \<Rightarrow> [v]
           | c # r' \<Rightarrow> if c = sep then v # sscanf_ints sep n r' else [v]))"

section \<open>Timestamps\<close>

text \<open>The fields of \<open>struct tm\<close> that the loader sets; every other field is zero.\<close>

record tm =
  tm_sec :: int
  tm_min :: int
  tm_hour :: int
  tm_mday :: int
  tm_mon :: int
  tm_year :: int

definition days_before_year :: "int \<Rightarrow> int" where
  "days_before_year y =
     365 * (y - 1970) + ((y - 1) div 4 - (y - 1) div 100 + (y - 1) div 400) - 477"

definition leap_year :: "int \<Rightarrow> bool" where
  "leap_year y = (y mod 4 = 0 \<and> (y mod 100 \<noteq> 0 \<or> y mod 400 = 0))"

definition days_before_month :: "int \<Rightarrow> int \<Rightarrow> int" where
  "days_before_month y m =
     (if 1 \<le> m \<and> m \<le> 12
      then [0, 31, 59, 90, 120, 151, 181, 212, 243, 273, 304, 334] ! nat (m - 1)
           + (if leap_year y \<and> 2 < m then 1 else 0)
      else 0)"

text \<open>
  Seconds from 1970-01-01T00:00:00Z to the given UTC date and time of day, in the
  Gregorian calendar.
\<close>

definition utc_seconds :: "int \<Rightarrow> int \<Rightarrow> int \<Rightarrow> int \<Rightarrow> int \<Rightarrow> int \<Rightarrow> int" where
  "utc_seconds y mo d h mi s =
     (((days_before_year y + days_before_month y mo + (d - 1)) * 24 + h) * 60 + mi) * 60 + s"

text \<open>
  Modelled from the spec: \<open>utc_mktime\<close> is a function of this repository that is not
  among the sources read here. The spec says a Record's timestamp is derived from the
  decoded date and time in UTC, and a Group's anchor is midnight UTC of its calendar
  date. The loader passes the year of a Record as \<open>yyyy - 1900\<close> and the year of a
  Group as \<open>yyyy\<close>, so the model reads a \<open>tm_year\<close> above 1900 as a calendar year
  and any other as years since 1900; \<open>tm_mon\<close> counts from 0.
\<close>

definition utc_mktime :: "tm \<Rightarrow> int" where
  "utc_mktime t =
     utc_seconds (if 1900 < tm_year t then tm_year t else tm_year t + 1900)
       (tm_mon t + 1) (tm_mday t) (tm_hour t) (tm_min t) (tm_sec t)"

section \<open>Records, groups and the traversal state\<close>

text \<open>
  Modelled from the spec: \<open>struct dive\<close>, \<open>dive_trip_t\<close> and the record store
  (\<open>alloc_dive\<close>, \<open>add_dive_to_trip\<close>, \<open>record_dive\<close>, \<open>report_error\<close>) are declared
  outside the sources read here. A Record has a timestamp, an optional ordinal number
  and at most one Group; a Group has an anchor timestamp and its member Records in
  insertion order. Objects live in a store and a pointer is an index into it, so that a
  Record reached through \<open>active_dive\<close> is the one the table of registered Records
  holds.
\<close>

record dive =
  dive_when :: int
  number :: "int option"
  divetrip :: "nat option"

record dive_trip =
  trip_when :: int
  trip_dives :: "nat list"

datatype error =
    Unable_to_read_divecomputer_file
  | Unable_to_read_dive_file
  | Unable_to_read_trip_file
  | Unknown_file string string "nat option" "nat option"
  | Unable_to_look_up_branch "string option"
  | Could_not_look_up_tree "string option"
  | Unable_to_open_repository string "string option"

record state =
  dive_heap :: "dive list"
  trip_heap :: "dive_trip list"
  dive_table :: "nat list"
  active_dive :: "nat option"
  active_trip :: "nat option"
  errors :: "error list"

definition initial_state :: state where
  "initial_state =
     \<lparr>dive_heap = [], trip_heap = [], dive_table = [],
      active_dive = None, active_trip = None, errors = []\<rparr>"

abbreviation (input) GIT_WALK_OK :: int where
  "GIT_WALK_OK \<equiv> 0"

abbreviation (input) GIT_WALK_SKIP :: int where
  "GIT_WALK_SKIP \<equiv> 1"

definition report_error :: "error \<Rightarrow> state \<Rightarrow> int \<times> state" where
  "report_error e st = (- 1, st\<lparr>errors := errors st @ [e]\<rparr>)"

definition alloc_dive :: "state \<Rightarrow> nat \<times> state" where
  "alloc_dive st =
     (length (dive_heap st),
      st\<lparr>dive_heap := dive_heap st @ [\<lparr>dive_when = 0, number = None, divetrip = None\<rparr>]\<rparr>)"

definition add_dive_to_trip :: "nat \<Rightarrow> nat \<Rightarrow> state \<Rightarrow> state" where
  "add_dive_to_trip d t st =
     st\<lparr>dive_heap := (dive_heap st)[d := (dive_heap st ! d)\<lparr>divetrip := Some t\<rparr>],
        trip_heap := (trip_heap st)
          [t := (trip_heap st ! t)\<lparr>trip_dives := trip_dives (trip_heap st ! t) @ [d]\<rparr>]\<rparr>"

definition record_dive :: "nat \<Rightarrow> state \<Rightarrow> state" where
  "record_dive d st = st\<lparr>dive_table := dive_table st @ [d]\<rparr>"

section \<open>The loader\<close>

definition create_new_dive :: "int \<Rightarrow> state \<Rightarrow> nat \<times> state" where
  "create_new_dive when st =
     (let (d, st1) = alloc_dive st;
          st2 = st1\<lparr>dive_heap := (dive_heap st1)[d := (dive_heap st1 ! d)\<lparr>dive_when := when\<rparr>]\<rparr>;
          st3 = (case active_trip st2 of
                   Some t \<Rightarrow> add_dive_to_trip d t st2
                 | None \<Rightarrow> st2)
      in (d, record_dive d st3))"

definition create_new_trip :: "int \<Rightarrow> int \<Rightarrow> int \<Rightarrow> state \<Rightarrow> nat \<times> state" where
  "create_new_trip yyyy mm dd st =
     (let t = \<lparr>tm_sec = 0, tm_min = 0, tm_hour = 0,
               tm_mday = dd, tm_mon = mm - 1, tm_year = yyyy\<rparr>
      in (length (trip_heap st),
          st\<lparr>trip_heap := trip_heap st @ [\<lparr>trip_when = utc_mktime t, trip_dives = []\<rparr>]\<rparr>))"

definition validate_date :: "int \<Rightarrow> int \<Rightarrow> int \<Rightarrow> bool" where
  "validate_date yyyy mm dd =
     (yyyy > 1970 \<and> yyyy < 3000 \<and> mm > 0 \<and> mm < 13 \<and> dd > 0 \<and> dd < 32)"

definition validate_time :: "int \<Rightarrow> int \<Rightarrow> int \<Rightarrow> bool" where
  "validate_time h m s = (h \<ge> 0 \<and> h < 24 \<and> m \<ge> 0 \<and> m < 60 \<and> s \<ge> 0 \<and> s \<le> 60)"

definition dive_trip_directory :: "string \<Rightarrow> string \<Rightarrow> state \<Rightarrow> int \<times> state" where
  "dive_trip_directory root name st =
     (let ym = sscanf_ints CHR ''/'' 1 root in
      if length ym \<noteq> 2 then (GIT_WALK_SKIP, st)
      else
        let yyyy = ym ! 0; mm = ym ! 1; dd = atoi name in
        if \<not> validate_date yyyy mm dd then (GIT_WALK_SKIP, st)
        else
          let (t, st1) = create_new_trip yyyy mm dd st
          in (GIT_WALK_OK, st1\<lparr>active_trip := Some t\<rparr>))"

definition dive_directory :: "string \<Rightarrow> string \<Rightarrow> int \<Rightarrow> state \<Rightarrow> int \<times> state" where
  "dive_directory root name timeoff st =
     (let mday_off = timeoff - 7;
          month_off = mday_off - 3;
          year_off = month_off - 5
      in
      if mday_off < 0 then (GIT_WALK_SKIP, st)
      else if cnth name (timeoff - 1) \<noteq> CHR ''-'' then (GIT_WALK_SKIP, st)
      else
        let hms = sscanf_ints CHR '':'' 2 (cdrop name timeoff) in
        if length hms \<noteq> 3 then (GIT_WALK_SKIP, st)
        else
          let h = hms ! 0; m = hms ! 1; s = hms ! 2 in
          if \<not> validate_time h m s then (GIT_WALK_SKIP, st)
          else
            let st1 = (if strlen root = 8 then st\<lparr>active_trip := None\<rparr> else st);
                dd = atoi (cdrop name mday_off);
                ym = sscanf_ints CHR ''/'' 1 root
            in
            if year_off < 0 \<and> length ym \<noteq> 2 then (GIT_WALK_SKIP, st1)
            else
              let yyyy = (if year_off < 0 then ym ! 0 else atoi (cdrop name year_off));
                  mm = (if month_off \<ge> 0 then atoi (cdrop name month_off)
                        else if year_off < 0 then ym ! 1 else - 1)
              in
              if \<not> validate_date yyyy mm dd then (GIT_WALK_SKIP, st1)
              else
                let t = \<lparr>tm_sec = s, tm_min = m, tm_hour = h,
                         tm_mday = dd, tm_mon = mm - 1, tm_year = yyyy - 1900\<rparr>;
                    (d, st2) = create_new_dive (utc_mktime t) st1
                in (GIT_WALK_OK, st2\<lparr>active_dive := Some d\<rparr>))"

definition nonunique_length :: "string \<Rightarrow> int" where
  "nonunique_length str = int (length (takeWhile (\<lambda>c. c \<noteq> NUL \<and> c \<noteq> CHR ''~'') str))"

text \<open>
  A tree entry is a blob with its object id, or a tree with its entries; an entry of
  any mode other than \<open>GIT_FILEMODE_TREE\<close> is walked as a blob. The object database
  maps an object id to the blob's content when it can be read.
\<close>

datatype git_tree_entry =
    Blob_entry string nat
  | Tree_entry string "git_tree_entry list"

text \<open>
  A reference peels to a tree (the list of its entries) or fails to. A repository is its
  object database and its local branches; the branch name is \<open>None\<close> where the C
  pointer is \<open>NULL\<close>.
\<close>

type_synonym git_reference = "git_tree_entry list option"

record git_repository =
  odb :: "nat \<Rightarrow> string option"
  local_branches :: "string option \<Rightarrow> git_reference option"

fun git_tree_entry_name :: "git_tree_entry \<Rightarrow> string" where
  "git_tree_entry_name (Blob_entry n i) = n"
| "git_tree_entry_name (Tree_entry n es) = n"

fun git_tree_entry_blob :: "git_repository \<Rightarrow> git_tree_entry \<Rightarrow> string option" where
  "git_tree_entry_blob repo (Blob_entry n i) = odb repo i"
| "git_tree_entry_blob repo (Tree_entry n es) = None"

definition digits_prefix :: "string \<Rightarrow> nat" where
  "digits_prefix name = length (takeWhile isdigit name)"

definition walk_tree_directory :: "string \<Rightarrow> git_tree_entry \<Rightarrow> state \<Rightarrow> int \<times> state" where
  "walk_tree_directory root entry st =
     (let name = git_tree_entry_name entry;
          digits = digits_prefix name;
          c = cnth name (int digits)
      in
      if digits \<noteq> 4 \<and> digits \<noteq> 2 then (GIT_WALK_SKIP, st)
      else if c = NUL then (GIT_WALK_OK, st)
      else if c \<noteq> CHR ''-'' then (GIT_WALK_SKIP, st)
      else
        let len = nonunique_length name in
        if cnth name (len - 3) = CHR '':'' then dive_directory root name (len - 8) st
        else if digits \<noteq> 2 then (GIT_WALK_SKIP, st)
        else dive_trip_directory root name st)"

text \<open>
  \<open>strncmp(a, b, n) == 0\<close> and \<open>strcmp(a, b) == 0\<close>: the strings end at their first
  NUL.
\<close>

definition cstr :: "string \<Rightarrow> string" where
  "cstr s = takeWhile (\<lambda>c. c \<noteq> NUL) s"

definition strncmp_eq :: "string \<Rightarrow> string \<Rightarrow> nat \<Rightarrow> bool" where
  "strncmp_eq a b n = (take n (cstr a) = take n (cstr b))"

definition strcmp_eq :: "string \<Rightarrow> string \<Rightarrow> bool" where
  "strcmp_eq a b = (cstr a = cstr b)"

definition parse_divecomputer_entry ::
  "git_repository \<Rightarrow> git_tree_entry \<Rightarrow> string \<Rightarrow> state \<Rightarrow> int \<times> state" where
  "parse_divecomputer_entry repo entry suffix st =
     (case git_tree_entry_blob repo entry of
        None \<Rightarrow> report_error Unable_to_read_divecomputer_file st
      | Some blob \<Rightarrow> (0, st))"

text \<open>
  \<open>dive->number = atoi(suffix+1)\<close> writes through \<open>active_dive\<close>. The caller only
  comes here with an active Record; with none the C code would dereference \<open>NULL\<close>,
  and the model leaves the state as it is.
\<close>

definition parse_dive_entry ::
  "git_repository \<Rightarrow> git_tree_entry \<Rightarrow> string \<Rightarrow> state \<Rightarrow> int \<times> state" where
  "parse_dive_entry repo entry suffix st =
     (case git_tree_entry_blob repo entry of
        None \<Rightarrow> report_error Unable_to_read_dive_file st
      | Some blob \<Rightarrow>
          (0, if cnth suffix 0 \<noteq> NUL
              then (case active_dive st of
                      Some d \<Rightarrow>
                        st\<lparr>dive_heap := (dive_heap st)
                             [d := (dive_heap st ! d)\<lparr>number := Some (atoi (cdrop suffix 1))\<rparr>]\<rparr>
                    | None \<Rightarrow> st)
              else st))"

definition parse_trip_entry ::
  "git_repository \<Rightarrow> git_tree_entry \<Rightarrow> state \<Rightarrow> int \<times> state" where
  "parse_trip_entry repo entry st =
     (case git_tree_entry_blob repo entry of
        None \<Rightarrow> report_error Unable_to_read_trip_file st
      | Some blob \<Rightarrow> (0, st))"

definition walk_tree_file ::
  "string \<Rightarrow> git_tree_entry \<Rightarrow> git_repository \<Rightarrow> state \<Rightarrow> int \<times> state" where
  "walk_tree_file root entry repo st =
     (let dive = active_dive st;
          trip = active_trip st;
          name = git_tree_entry_name entry
      in
      if dive \<noteq> None \<and> strncmp_eq name ''Divecomputer'' 12
      then parse_divecomputer_entry repo entry (cdrop name 12) st
      else if dive \<noteq> None \<and> strncmp_eq name ''Dive'' 4
      then parse_dive_entry repo entry (cdrop name 4) st
      else if trip \<noteq> None \<and> strcmp_eq name ''00-Trip''
      then parse_trip_entry repo entry st
      else (GIT_WALK_SKIP, snd (report_error (Unknown_file root name dive trip) st)))"

fun walk_tree_cb ::
  "string \<Rightarrow> git_tree_entry \<Rightarrow> git_repository \<Rightarrow> state \<Rightarrow> int \<times> state" where
  "walk_tree_cb root (Tree_entry n es) repo st = walk_tree_directory root (Tree_entry n es) st"
| "walk_tree_cb root (Blob_entry n i) repo st =
     (GIT_WALK_OK, snd (walk_tree_file root (Blob_entry n i) repo st))"

text \<open>
  \<open>git_tree_walk\<close> of libgit2 in pre-order, with \<open>walk_tree_cb\<close> as its callback:
  each entry of the tree is handed to the callback with the path of the tree it is in;
  a negative answer stops the walk, a positive answer skips the entry, and on zero the
  walk goes down into an entry that is a tree, with the entry's name and a slash added
  to the path, before it goes on to the next entry.
\<close>

fun git_tree_walk ::
  "git_repository \<Rightarrow> string \<Rightarrow> git_tree_entry list \<Rightarrow> state \<Rightarrow> int \<times> state" where
  "git_tree_walk repo path [] st = (0, st)"
| "git_tree_walk repo path (Blob_entry n i # es) st =
     (case walk_tree_cb path (Blob_entry n i) repo st of
        (r, st1) \<Rightarrow>
          if r < 0 then (r, st1)
          else git_tree_walk repo path es st1)"
| "git_tree_walk repo path (Tree_entry n sub # es) st =
     (case walk_tree_cb path (Tree_entry n sub) repo st of
        (r, st1) \<Rightarrow>
          if r < 0 then (r, st1)
          else if r > 0 then git_tree_walk repo path es st1
          else
            (case git_tree_walk repo (path @ n @ ''/'') sub st1 of
               (err, st2) \<Rightarrow>
                 if err \<noteq> 0 then (err, st2)
                 else git_tree_walk repo path es st2))"

definition load_dives_from_tree ::
  "git_repository \<Rightarrow> git_tree_entry list \<Rightarrow> state \<Rightarrow> int \<times> state" where
  "load_dives_from_tree repo tree st = (0, snd (git_tree_walk repo [] tree st))"

definition do_git_load :: "git_repository \<Rightarrow> string option \<Rightarrow> state \<Rightarrow> int \<times> state" where
  "do_git_load repo branch st =
     (case local_branches repo branch of
        None \<Rightarrow> report_error (Unable_to_look_up_branch branch) st
      | Some ref \<Rightarrow>
          (case ref of
             None \<Rightarrow> report_error (Could_not_look_up_tree branch) st
           | Some tree \<Rightarrow> load_dives_from_tree repo tree st))"

text \<open>
  The location: the marker of three characters is jumped over, white space is trimmed at
  both ends, and what follows the last colon is the branch. \<open>git_repository_open\<close> is
  the environment: the repository at a location, when it opens.
\<close>

definition trim_location :: "string \<Rightarrow> string" where
  "trim_location location =
     rev (dropWhile isspace (rev (cstr (dropWhile isspace (cdrop location 3)))))"

definition split_branch :: "string \<Rightarrow> string \<times> string option" where
  "split_branch loc =
     (if CHR '':'' \<in> set loc
      then (rev (tl (dropWhile (\<lambda>c. c \<noteq> CHR '':'') (rev loc))),
            Some (rev (takeWhile (\<lambda>c. c \<noteq> CHR '':'') (rev loc))))
      else (loc, None))"

definition git_load_dives ::
  "(string \<Rightarrow> git_repository option) \<Rightarrow> string \<Rightarrow> state \<Rightarrow> int \<times> state" where
  "git_load_dives git_repository_open location st =
     (case split_branch (trim_location location) of
        (loc, branch) \<Rightarrow>
          (case git_repository_open loc of
             None \<Rightarrow> report_error (Unable_to_open_repository loc branch) st
           | Some repo \<Rightarrow> do_git_load repo branch st))"

section \<open>Example inputs\<close>

text \<open>A repository in which every blob can be read, and one in which none can.\<close>

definition example_repo :: git_repository where
  "example_repo = \<lparr>odb = (\<lambda>i. Some []), local_branches = (\<lambda>b. None)\<rparr>"

definition unreadable_repo :: git_repository where
  "unreadable_repo = \<lparr>odb = (\<lambda>i. None), local_branches = (\<lambda>b. None)\<rparr>"

text \<open>The state after the Record directory \<open>2023/07/15-001-10:30:00\<close> was visited.\<close>

definition state_one_dive :: state where
  "state_one_dive =
     \<lparr>dive_heap = [\<lparr>dive_when = 1689417000, number = None, divetrip = None\<rparr>],
      trip_heap = [], dive_table = [0],
      active_dive = Some 0, active_trip = None, errors = []\<rparr>"

definition tree_Dive5 :: "git_tree_entry list" where
  "tree_Dive5 =
     [Tree_entry ''2023'' [Tree_entry ''07'' [Tree_entry ''15-001-10:30:00''
        [Blob_entry ''Dive5'' 0]]]]"

text \<open>
  A Group directory with one Record directory in it, and the same tree with a sibling
  Record directory after the Group's subtree; \<open>state_in_trip\<close> is the state after
  the Group's subtree was walked.
\<close>

definition tree_trip_only :: "git_tree_entry list" where
  "tree_trip_only =
     [Tree_entry ''2023'' [Tree_entry ''07''
        [Tree_entry ''13-trip'' [Tree_entry ''14-001-10:00:00'' []]]]]"

definition tree_trip_then_sibling :: "git_tree_entry list" where
  "tree_trip_then_sibling =
     [Tree_entry ''2023'' [Tree_entry ''07''
        [Tree_entry ''13-trip'' [Tree_entry ''14-001-10:00:00'' []],
         Tree_entry ''20-002-09:00:00'' []]]]"

definition state_in_trip :: state where
  "state_in_trip =
     \<lparr>dive_heap = [\<lparr>dive_when = 1689328800, number = None, divetrip = Some 0\<rparr>],
      trip_heap = [\<lparr>trip_when = 1689206400, trip_dives = [0]\<rparr>],
      dive_table = [0],
      active_dive = Some 0, active_trip = Some 0, errors = []\<rparr>"

text \<open>
  The classes of directory names, in the spec's words: a name of digits only, of length
  2 or 4, is transparent; a name that does not start with exactly 2 or 4 digits, or
  whose digits are followed by a character other than a dash, is rejected; any other
  name goes to the decoders of Group and Record directories.
\<close>

datatype dir_class = Transparent | Rejected | Decode

definition spec_dir_class :: "string \<Rightarrow> dir_class" where
  "spec_dir_class name =
     (if list_all isdigit name \<and> (length name = 2 \<or> length name = 4) then Transparent
      else if (digits_prefix name \<noteq> 2 \<and> digits_prefix name \<noteq> 4)
              \<or> (digits_prefix name < length name \<and> name ! digits_prefix name \<noteq> CHR ''-'')
      then Rejected
      else Decode)"

text \<open>
  Environments for \<open>git_load_dives\<close>: no repository opens; or the one at
  \<open>/tmp/dives\<close> opens, which has no branch at all (\<open>example_repo\<close>). In
  \<open>unpeelable_repo\<close> every branch is found and none peels to a tree.
\<close>

definition no_repository :: "string \<Rightarrow> git_repository option" where
  "no_repository loc = None"

definition one_repository :: "string \<Rightarrow> git_repository option" where
  "one_repository loc = (if loc = ''/tmp/dives'' then Some example_repo else None)"

definition unpeelable_repo :: git_repository where
  "unpeelable_repo = \<lparr>odb = (\<lambda>i. None), local_branches = (\<lambda>b. Some None)\<rparr>"

text \<open>
  The fields of a directory name, for stating what the decoders read: a field of \<open>n\<close>
  decimal digits, the tag of three characters of a Record directory, the alphabetic
  name of a Group directory, and the unique suffix, which is empty or starts at a
  tilde.
\<close>

definition digits_field :: "nat \<Rightarrow> string \<Rightarrow> bool" where
  "digits_field n s = (length s = n \<and> list_all isdigit s)"

definition tag_field :: "string \<Rightarrow> bool" where
  "tag_field t = (length t = 3 \<and> list_all (\<lambda>c. c \<noteq> NUL \<and> c \<noteq> CHR ''~'') t)"

definition isalpha :: "char \<Rightarrow> bool" where
  "isalpha c =
     (c \<in> set ''abcdefghijklmnopqrstuvwxyz'' \<or> c \<in> set ''ABCDEFGHIJKLMNOPQRSTUVWXYZ'')"

definition unique_suffix :: "string \<Rightarrow> bool" where
  "unique_suffix sfx = (sfx = [] \<or> hd sfx = CHR ''~'')"




text \<open>
  The state \<open>a\<close> with its objects placed in the store after those of the state \<open>b\<close>:
  every pointer of \<open>a\<close> moves up by the number of objects of \<open>b\<close>, and the objects,
  the table and the errors of \<open>b\<close> stay in front. \<open>reset8\<close> is the reset of the active
  Group that \<open>dive_directory\<close> makes under a path prefix of 8 characters, and
  \<open>state_ok\<close> says that the active Record and Group, when set, are in the store.
\<close>

definition shift_dive :: "nat \<Rightarrow> dive \<Rightarrow> dive" where
  "shift_dive k d = d\<lparr>divetrip := map_option (\<lambda>t. k + t) (divetrip d)\<rparr>"

definition shift_trip :: "nat \<Rightarrow> dive_trip \<Rightarrow> dive_trip" where
  "shift_trip n t = t\<lparr>trip_dives := map (\<lambda>d. n + d) (trip_dives t)\<rparr>"

fun shift_error :: "nat \<Rightarrow> nat \<Rightarrow> error \<Rightarrow> error" where
  "shift_error n k (Unknown_file r nm d t) =
     Unknown_file r nm (map_option (\<lambda>i. n + i) d) (map_option (\<lambda>i. k + i) t)"
| "shift_error n k e = e"

definition rebase :: "state \<Rightarrow> state \<Rightarrow> state" where
  "rebase b a =
     \<lparr>dive_heap = dive_heap b @ map (shift_dive (length (trip_heap b))) (dive_heap a),
      trip_heap = trip_heap b @ map (shift_trip (length (dive_heap b))) (trip_heap a),
      dive_table = dive_table b @ map (\<lambda>d. length (dive_heap b) + d) (dive_table a),
      active_dive = map_option (\<lambda>d. length (dive_heap b) + d) (active_dive a),
      active_trip = map_option (\<lambda>t. length (trip_heap b) + t) (active_trip a),
      errors = errors b @
        map (shift_error (length (dive_heap b)) (length (trip_heap b))) (errors a)\<rparr>"



section \<open>The validators\<close>

lemma dive_directory_time_rejected:
  assumes "sscanf_ints CHR '':'' 2 (cdrop name timeoff) = [h, m, s]"
    and "\<not> validate_time h m s"
  shows "dive_directory root name timeoff st = (GIT_WALK_SKIP, st)"
  using assms by (simp add: dive_directory_def Let_def)

text \<open>
  Claim C5. The date validator accepts exactly the years strictly between 1970 and 3000,
  the months 1 to 12 and the days 1 to 31; the time validator accepts exactly the hours
  0 to 23, the minutes 0 to 59 and the seconds 0 to 60. So 10:30:60 is accepted, while
  10:30:61 and 24:00:00 are rejected; and a directory whose time of day is read as
  \<open>h:m:s\<close> and rejected is skipped with the state as it was, so no Record is created
  for it.
\<close>

theorem validators_accept_exactly:
  "(validate_date yyyy mm dd \<longleftrightarrow>
      1970 < yyyy \<and> yyyy < 3000 \<and> 1 \<le> mm \<and> mm \<le> 12 \<and> 1 \<le> dd \<and> dd \<le> 31)
   \<and> (validate_time h m s \<longleftrightarrow>
      0 \<le> h \<and> h \<le> 23 \<and> 0 \<le> m \<and> m \<le> 59 \<and> 0 \<le> s \<and> s \<le> 60)
   \<and> validate_time 10 30 60 \<and> \<not> validate_time 10 30 61 \<and> \<not> validate_time 24 0 0
   \<and> (sscanf_ints CHR '':'' 2 (cdrop name timeoff) = [h, m, s] \<and> \<not> validate_time h m s
        \<longrightarrow> dive_directory root name timeoff st = (GIT_WALK_SKIP, st))"
proof -
  have d: "validate_date yyyy mm dd \<longleftrightarrow>
      1970 < yyyy \<and> yyyy < 3000 \<and> 1 \<le> mm \<and> mm \<le> 12 \<and> 1 \<le> dd \<and> dd \<le> 31"
    unfolding validate_date_def by arith
  have t: "validate_time h m s \<longleftrightarrow>
      0 \<le> h \<and> h \<le> 23 \<and> 0 \<le> m \<and> m \<le> 59 \<and> 0 \<le> s \<and> s \<le> 60"
    unfolding validate_time_def by arith
  have e: "validate_time 10 30 60 \<and> \<not> validate_time 10 30 61 \<and> \<not> validate_time 24 0 0"
    by (simp add: validate_time_def)
  show ?thesis using d t e dive_directory_time_rejected by blast
qed

text \<open>
  The directories \<open>15-001-10:30:61\<close> and \<open>15-001-24:00:00\<close> under \<open>2023/07/\<close>: the
  time of day is read and rejected, and the state stays as it was.
\<close>

theorem validators_accept_exactly_witness:
  "sscanf_ints CHR '':'' 2 (cdrop ''15-001-10:30:61'' 7) = [10, 30, 61]
   \<and> \<not> validate_time 10 30 61
   \<and> dive_directory ''2023/07/'' ''15-001-10:30:61'' 7 initial_state
       = (GIT_WALK_SKIP, initial_state)
   \<and> sscanf_ints CHR '':'' 2 (cdrop ''15-001-24:00:00'' 7) = [24, 0, 0]
   \<and> dive_directory ''2023/07/'' ''15-001-24:00:00'' 7 initial_state
       = (GIT_WALK_SKIP, initial_state)"
proof -
  have a: "sscanf_ints CHR '':'' 2 (cdrop ''15-001-10:30:61'' 7) = [10, 30, 61]"
    by code_simp
  have b: "sscanf_ints CHR '':'' 2 (cdrop ''15-001-24:00:00'' 7) = [24, 0, 0]"
    by code_simp
  note c = validators_accept_exactly
    [where h = 10 and m = 30 and s = 61 and name = "''15-001-10:30:61''" and timeoff = 7
       and root = "''2023/07/''" and st = initial_state]
  note d = validators_accept_exactly
    [where h = 24 and m = 0 and s = 0 and name = "''15-001-24:00:00''" and timeoff = 7
       and root = "''2023/07/''" and st = initial_state]
  show ?thesis using a b c d by blast
qed

section \<open>Reading numbers\<close>

lemma isdigit_simps:
  "isdigit c \<Longrightarrow> \<not> isspace c"
  "isdigit c \<Longrightarrow> c \<noteq> CHR ''-''"
  "isdigit c \<Longrightarrow> c \<noteq> CHR ''+''"
  "isdigit c \<Longrightarrow> c \<noteq> NUL"
  "isdigit c \<Longrightarrow> c \<noteq> CHR ''~''"
  "isdigit c \<Longrightarrow> c \<noteq> CHR '':''"
  "isdigit c \<Longrightarrow> c \<noteq> CHR ''/''"
  "isdigit c \<Longrightarrow> c \<noteq> CHR ''c''"
  by (auto simp: isdigit_def isspace_def)

lemma c_int_fits:
  assumes "0 \<le> v" and "v \<le> 2147483647"
  shows "c_int (c_long v) = v"
proof -
  have "c_long v = v" using assms by (simp add: c_long_def)
  moreover have "(v + 2147483648) mod 4294967296 = v + 2147483648"
    using assms by (simp add: mod_pos_pos_trivial)
  ultimately show ?thesis by (simp add: c_int_def)
qed

lemma digit_val_range:
  assumes "isdigit c"
  shows "0 \<le> digit_val c" and "digit_val c \<le> 9"
  using assms by (auto simp: isdigit_def digit_val_def)

lemma digits_value_bounds:
  assumes "list_all isdigit ds" and "0 \<le> acc"
  shows "0 \<le> digits_value acc ds \<and> digits_value acc ds < (acc + 1) * 10 ^ length ds"
  using assms
proof (induction ds arbitrary: acc)
  case Nil
  then show ?case by simp
next
  case (Cons c cs)
  have c: "0 \<le> digit_val c" "digit_val c \<le> 9"
    using Cons.prems(1) by (simp_all add: digit_val_range)
  have n: "0 \<le> 10 * acc + digit_val c" using c Cons.prems(2) by simp
  from Cons.IH[OF _ n] Cons.prems(1)
  have ih: "0 \<le> digits_value (10 * acc + digit_val c) cs"
    "digits_value (10 * acc + digit_val c) cs < (10 * acc + digit_val c + 1) * 10 ^ length cs"
    by simp_all
  have le: "(10 * acc + digit_val c + 1) * 10 ^ length cs
             \<le> (10 * acc + 10) * (10::int) ^ length cs"
    using c by (intro mult_right_mono) simp_all
  have eq: "(10 * acc + 10) * (10::int) ^ length cs = (acc + 1) * 10 ^ length (c # cs)"
    by (simp add: algebra_simps)
  have "digits_value (10 * acc + digit_val c) cs < (acc + 1) * 10 ^ length (c # cs)"
    using ih(2) le eq by linarith
  then show ?case using ih(1) by simp
qed

lemma digits_value_short:
  assumes "list_all isdigit ds" and "length ds \<le> 9"
  shows "0 \<le> digits_value 0 ds" and "digits_value 0 ds \<le> 2147483647"
proof -
  from digits_value_bounds[OF assms(1), of 0]
  have b: "0 \<le> digits_value 0 ds" "digits_value 0 ds < 10 ^ length ds" by simp_all
  have "(10::int) ^ length ds \<le> 10 ^ 9" using assms(2) by (intro power_increasing) simp_all
  then show "0 \<le> digits_value 0 ds" and "digits_value 0 ds \<le> 2147483647"
    using b by simp_all
qed

lemma scan_int_digits_raw:
  assumes "ds \<noteq> []" and "list_all isdigit ds" and "r = [] \<or> \<not> isdigit (hd r)"
  shows "scan_int (ds @ r) = Some (c_int (c_long (digits_value 0 ds)), r)"
proof -
  obtain x xs where ds: "ds = x # xs" using assms(1) by (cases ds) auto
  have x: "isdigit x" using assms(2) ds by simp
  have all: "\<And>c. c \<in> set ds \<Longrightarrow> isdigit c" using assms(2) by (simp add: list_all_iff)
  have r: "takeWhile isdigit r = []" "dropWhile isdigit r = r"
    using assms(3) by (cases r; auto)+
  have tw: "takeWhile isdigit (ds @ r) = ds" using all r by simp
  have dw: "dropWhile isdigit (ds @ r) = r" using all r by simp
  have sp: "dropWhile isspace (ds @ r) = ds @ r" using ds x by (simp add: isdigit_simps)
  have hd: "hd (ds @ r) = x" using ds by simp
  show ?thesis
    unfolding scan_int_def sp Let_def using ds x tw dw hd assms(1)
    by (simp add: isdigit_simps)
qed

lemma scan_int_digits_fit:
  assumes "ds \<noteq> []" and "list_all isdigit ds" and "r = [] \<or> \<not> isdigit (hd r)"
    and "digits_value 0 ds \<le> 2147483647"
  shows "scan_int (ds @ r) = Some (digits_value 0 ds, r)"
proof -
  have "0 \<le> digits_value 0 ds" using digits_value_bounds[OF assms(2), of 0] by simp
  then have "c_int (c_long (digits_value 0 ds)) = digits_value 0 ds"
    using assms(4) by (rule c_int_fits)
  then show ?thesis using scan_int_digits_raw[OF assms(1-3)] by simp
qed

lemma scan_int_digits:
  assumes "ds \<noteq> []" and "list_all isdigit ds" and "r = [] \<or> \<not> isdigit (hd r)"
    and "length ds \<le> 9"
  shows "scan_int (ds @ r) = Some (digits_value 0 ds, r)"
  using assms(1-3) digits_value_short(2)[OF assms(2,4)] by (rule scan_int_digits_fit)

lemma atoi_digits_fit:
  assumes "ds \<noteq> []" and "list_all isdigit ds" and "r = [] \<or> \<not> isdigit (hd r)"
    and "digits_value 0 ds \<le> 2147483647"
  shows "atoi (ds @ r) = digits_value 0 ds"
  using scan_int_digits_fit[OF assms] by (simp add: atoi_def)

lemma atoi_digits:
  assumes "ds \<noteq> []" and "list_all isdigit ds" and "r = [] \<or> \<not> isdigit (hd r)"
    and "length ds \<le> 9"
  shows "atoi (ds @ r) = digits_value 0 ds"
  using scan_int_digits[OF assms] by (simp add: atoi_def)

lemma atoi_Nil: "atoi [] = 0"
  by (simp add: atoi_def scan_int_def)

section \<open>Content files\<close>

lemma strncmp_Dive: "strncmp_eq (''Dive'' @ r) ''Dive'' 4"
  by (simp add: strncmp_eq_def cstr_def)

lemma not_Divecomputer:
  assumes "r = [] \<or> hd r \<noteq> CHR ''c''"
  shows "\<not> strncmp_eq (''Dive'' @ r) ''Divecomputer'' 12"
  using assms by (cases r) (auto simp: strncmp_eq_def cstr_def)

lemma parse_dive_entry_ok:
  assumes "active_dive st = Some d" and "odb repo i = Some blob"
  shows "parse_dive_entry repo (Blob_entry n i) suffix st =
           (0, if suffix = [] \<or> hd suffix = NUL then st
               else st\<lparr>dive_heap := (dive_heap st)
                      [d := (dive_heap st ! d)\<lparr>number := Some (atoi (tl suffix))\<rparr>]\<rparr>)"
  using assms by (cases suffix) (auto simp: parse_dive_entry_def cnth_def cdrop_def)

lemma walk_tree_file_Dive:
  assumes "active_dive st = Some d" and "odb repo i = Some blob"
    and "r = [] \<or> hd r \<noteq> CHR ''c''"
  shows "walk_tree_file root (Blob_entry (''Dive'' @ r) i) repo st =
           (0, if r = [] \<or> hd r = NUL then st
               else st\<lparr>dive_heap := (dive_heap st)
                      [d := (dive_heap st ! d)\<lparr>number := Some (atoi (tl r))\<rparr>]\<rparr>)"
proof -
  have "walk_tree_file root (Blob_entry (''Dive'' @ r) i) repo st =
          parse_dive_entry repo (Blob_entry (''Dive'' @ r) i) r st"
    using assms(1) not_Divecomputer[OF assms(3)] strncmp_Dive[of r]
    by (simp add: walk_tree_file_def Let_def cdrop_def)
  then show ?thesis using parse_dive_entry_ok[OF assms(1,2)] by simp
qed

text \<open>
  Claim C1, as the code has it. \<open>parse_dive_entry\<close> reads the ordinal with
  \<open>atoi(suffix+1)\<close>: the character right after \<open>Dive\<close> is jumped over as a separator,
  whatever it is. For a file \<open>Dive\<close>, one separator character and a non-empty run of
  digits whose value fits an \<open>int\<close> (\<open>Dive-5\<close>), visited while a Record is active and
  with a readable blob, the active Record's ordinal becomes the value of the digits.
  For a file named \<open>Dive\<close> and digits alone the first digit is the one jumped over, so
  \<open>Dive5\<close> sets the ordinal 0 and \<open>Dive15\<close> sets 5. For a file named exactly \<open>Dive\<close>
  the state is left as it was.
\<close>

theorem dive_file_sets_ordinal:
  assumes "active_dive st = Some d" and "odb repo i = Some blob"
  shows "walk_tree_file root (Blob_entry ''Dive'' i) repo st = (0, st)
    \<and> (c \<noteq> NUL \<and> ds \<noteq> [] \<and> list_all isdigit ds \<and> digits_value 0 ds \<le> 2147483647 \<longrightarrow>
         walk_tree_file root (Blob_entry (''Dive'' @ c # ds) i) repo st =
           (0, st\<lparr>dive_heap := (dive_heap st)
                    [d := (dive_heap st ! d)\<lparr>number := Some (digits_value 0 ds)\<rparr>]\<rparr>))
    \<and> (list_all isdigit (x # xs) \<and> digits_value 0 xs \<le> 2147483647 \<longrightarrow>
         walk_tree_file root (Blob_entry (''Dive'' @ x # xs) i) repo st =
           (0, st\<lparr>dive_heap := (dive_heap st)
                    [d := (dive_heap st ! d)\<lparr>number := Some (digits_value 0 xs)\<rparr>]\<rparr>))"
proof -
  have plain: "walk_tree_file root (Blob_entry ''Dive'' i) repo st = (0, st)"
    using walk_tree_file_Dive[OF assms, of "[]" root] by simp
  have separator: "walk_tree_file root (Blob_entry (''Dive'' @ c # ds) i) repo st =
           (0, st\<lparr>dive_heap := (dive_heap st)
                    [d := (dive_heap st ! d)\<lparr>number := Some (digits_value 0 ds)\<rparr>]\<rparr>)"
    if a: "c \<noteq> NUL \<and> ds \<noteq> [] \<and> list_all isdigit ds \<and> digits_value 0 ds \<le> 2147483647"
  proof -
    have nc: "\<not> strncmp_eq (''Dive'' @ c # ds) ''Divecomputer'' 12"
      using a by (cases ds) (auto simp: strncmp_eq_def cstr_def isdigit_def)
    have "walk_tree_file root (Blob_entry (''Dive'' @ c # ds) i) repo st =
            parse_dive_entry repo (Blob_entry (''Dive'' @ c # ds) i) (c # ds) st"
      using assms(1) nc strncmp_Dive[of "c # ds"]
      by (simp add: walk_tree_file_def Let_def cdrop_def)
    moreover have "atoi ds = digits_value 0 ds"
      using atoi_digits_fit[of ds "[]"] a by simp
    ultimately show ?thesis
      using parse_dive_entry_ok[OF assms, of "''Dive'' @ c # ds" "c # ds"] a by simp
  qed
  have digits: "walk_tree_file root (Blob_entry (''Dive'' @ x # xs) i) repo st =
           (0, st\<lparr>dive_heap := (dive_heap st)
                    [d := (dive_heap st ! d)\<lparr>number := Some (digits_value 0 xs)\<rparr>]\<rparr>)"
    if a: "list_all isdigit (x # xs) \<and> digits_value 0 xs \<le> 2147483647"
  proof -
    have at: "atoi xs = digits_value 0 xs"
    proof (cases xs)
      case Nil
      then show ?thesis by (simp add: atoi_Nil)
    next
      case Cons
      then show ?thesis using atoi_digits_fit[of xs "[]"] a by simp
    qed
    have x: "x \<noteq> CHR ''c''" "x \<noteq> NUL" using a by (simp_all add: isdigit_simps)
    show ?thesis
      using walk_tree_file_Dive[OF assms, of "x # xs" root] x at by simp
  qed
  show ?thesis using plain separator digits by blast
qed

text \<open>
  With the Record of \<open>2023/07/15-001-10:30:00\<close> active: \<open>Dive\<close> leaves the state,
  \<open>Dive-5\<close> sets the ordinal 5 and \<open>Dive15\<close> sets the ordinal 5 as well. The number of
  \<open>Dive-4294967301\<close> does not fit an \<open>int\<close>, and the ordinal stored is 5.
\<close>

theorem dive_file_sets_ordinal_witness:
  "active_dive state_one_dive = Some 0
   \<and> odb example_repo 7 = Some []
   \<and> digits_value 0 ''5'' \<le> 2147483647
   \<and> walk_tree_file ''2023/07/15-001-10:30:00/'' (Blob_entry ''Dive'' 7) example_repo
        state_one_dive = (0, state_one_dive)
   \<and> walk_tree_file ''2023/07/15-001-10:30:00/'' (Blob_entry ''Dive-5'' 7) example_repo
        state_one_dive =
       (0, state_one_dive
             \<lparr>dive_heap := [\<lparr>dive_when = 1689417000, number = Some 5, divetrip = None\<rparr>]\<rparr>)
   \<and> walk_tree_file ''2023/07/15-001-10:30:00/'' (Blob_entry ''Dive15'' 7) example_repo
        state_one_dive =
       (0, state_one_dive
             \<lparr>dive_heap := [\<lparr>dive_when = 1689417000, number = Some 5, divetrip = None\<rparr>]\<rparr>)
   \<and> digits_value 0 ''4294967301'' = 4294967301
   \<and> walk_tree_file ''2023/07/15-001-10:30:00/'' (Blob_entry ''Dive-4294967301'' 7)
        example_repo state_one_dive =
       (0, state_one_dive
             \<lparr>dive_heap := [\<lparr>dive_when = 1689417000, number = Some 5, divetrip = None\<rparr>]\<rparr>)"
proof -
  have h1: "active_dive state_one_dive = Some 0"
    by (simp add: state_one_dive_def)
  have h2: "odb example_repo 7 = Some []"
    by (simp add: example_repo_def)
  have v: "digits_value 0 ''5'' = 5"
    by (simp add: digit_val_def)
  have g: "CHR ''-'' \<noteq> NUL \<and> ''5'' \<noteq> [] \<and> list_all isdigit ''5''
            \<and> digits_value 0 ''5'' \<le> 2147483647"
    "list_all isdigit ''15'' \<and> digits_value 0 ''5'' \<le> 2147483647"
    by (simp_all add: isdigit_def digit_val_def)
  note t = dive_file_sets_ordinal
    [OF h1 h2, where root = "''2023/07/15-001-10:30:00/''" and c = "CHR ''-''"
       and ds = "''5''" and x = "CHR ''1''" and xs = "''5''"]
  have u: "(dive_heap state_one_dive)
             [0 := (dive_heap state_one_dive ! 0)\<lparr>number := Some 5\<rparr>] =
           [\<lparr>dive_when = 1689417000, number = Some 5, divetrip = None\<rparr>]"
    by (simp add: state_one_dive_def)
  have big: "digits_value 0 ''4294967301'' = 4294967301"
    by (simp add: digit_val_def)
  have wrap: "walk_tree_file ''2023/07/15-001-10:30:00/'' (Blob_entry ''Dive-4294967301'' 7)
        example_repo state_one_dive =
       (0, state_one_dive
             \<lparr>dive_heap := [\<lparr>dive_when = 1689417000, number = Some 5, divetrip = None\<rparr>]\<rparr>)"
    by code_simp
  have r: "walk_tree_file ''2023/07/15-001-10:30:00/'' (Blob_entry ''Dive'' 7) example_repo
        state_one_dive = (0, state_one_dive)"
    "walk_tree_file ''2023/07/15-001-10:30:00/'' (Blob_entry ''Dive-5'' 7) example_repo
        state_one_dive =
       (0, state_one_dive
             \<lparr>dive_heap := [\<lparr>dive_when = 1689417000, number = Some 5, divetrip = None\<rparr>]\<rparr>)"
    "walk_tree_file ''2023/07/15-001-10:30:00/'' (Blob_entry ''Dive15'' 7) example_repo
        state_one_dive =
       (0, state_one_dive
             \<lparr>dive_heap := [\<lparr>dive_when = 1689417000, number = Some 5, divetrip = None\<rparr>]\<rparr>)"
    using t g v u by simp_all
  have b: "digits_value 0 ''5'' \<le> 2147483647" using v by simp
  show ?thesis using h1 h2 b r big wrap by (intro conjI)
qed

text \<open>
  Claim C1 as the spec states it fails. Walking the tree \<open>2023/07/15-001-10:30:00/Dive5\<close>
  with readable blobs leaves the Record of that directory active, and its ordinal is 0,
  not 5.
\<close>

theorem dive5_ordinal_counterexample:
  "active_dive (snd (git_tree_walk example_repo [] tree_Dive5 initial_state)) = Some 0
   \<and> number (dive_heap (snd (git_tree_walk example_repo [] tree_Dive5 initial_state)) ! 0)
       = Some 0
   \<and> number (dive_heap (snd (git_tree_walk example_repo [] tree_Dive5 initial_state)) ! 0)
       \<noteq> Some 5"
  by code_simp

section \<open>Record directories\<close>

lemma create_new_dive_None:
  assumes "active_trip st = None"
  shows "create_new_dive w st =
    (length (dive_heap st),
     st\<lparr>dive_heap := dive_heap st @ [\<lparr>dive_when = w, number = None, divetrip = None\<rparr>],
        dive_table := dive_table st @ [length (dive_heap st)]\<rparr>)"
  using assms by (simp add: create_new_dive_def alloc_dive_def record_dive_def Let_def)

lemma create_new_dive_Some:
  assumes "active_trip st = Some t"
  shows "create_new_dive w st =
    (length (dive_heap st),
     st\<lparr>dive_heap := dive_heap st @ [\<lparr>dive_when = w, number = None, divetrip = Some t\<rparr>],
        trip_heap := (trip_heap st)
          [t := (trip_heap st ! t)
             \<lparr>trip_dives := trip_dives (trip_heap st ! t) @ [length (dive_heap st)]\<rparr>],
        dive_table := dive_table st @ [length (dive_heap st)]\<rparr>)"
  using assms
  by (simp add: create_new_dive_def alloc_dive_def record_dive_def add_dive_to_trip_def Let_def)

lemma fst_create_new_dive: "fst (create_new_dive w st) = length (dive_heap st)"
  by (cases "active_trip st") (simp_all add: create_new_dive_None create_new_dive_Some)

lemma create_new_dive_split:
  "(case create_new_dive w s of (d, st2) \<Rightarrow> (GIT_WALK_OK, st2\<lparr>active_dive := Some d\<rparr>)) =
     (GIT_WALK_OK, (snd (create_new_dive w s))\<lparr>active_dive := Some (length (dive_heap s))\<rparr>)"
  using fst_create_new_dive[of w s] by (simp add: split_beta)

lemma dive_directory_cases:
  assumes "dive_directory root name timeoff st = (r, st')"
  shows "(r = GIT_WALK_SKIP \<and> (st' = st \<or> (strlen root = 8 \<and> st' = st\<lparr>active_trip := None\<rparr>)))
    \<or> (r = GIT_WALK_OK \<and> 7 \<le> timeoff \<and> cnth name (timeoff - 1) = CHR ''-''
        \<and> (\<exists>w. st' = (snd (create_new_dive w
                 (if strlen root = 8 then st\<lparr>active_trip := None\<rparr> else st)))
               \<lparr>active_dive := Some (length (dive_heap st))\<rparr>))"
proof (cases "strlen root = 8")
  case True
  then show ?thesis
    using assms unfolding dive_directory_def Let_def create_new_dive_split
    by (simp del: sscanf_ints.simps split: if_splits) blast+
next
  case False
  then show ?thesis
    using assms unfolding dive_directory_def Let_def create_new_dive_split
    by (simp del: sscanf_ints.simps split: if_splits) blast+
qed

lemma dive_trip_directory_heap:
  "dive_heap (snd (dive_trip_directory root name st)) = dive_heap st"
  by (simp add: dive_trip_directory_def create_new_trip_def Let_def)

text \<open>
  Claim C3. A Record directory that is accepted under a path prefix of exactly 8
  characters has the active Group reset to empty before its Record is built: the new
  state is that of \<open>create_new_dive\<close> run with no active Group. The new Record is the
  active one, it belongs to no Group, no Group gains a member, and the Record is
  registered. So a Record directory at that depth met after a Group's subtree does not
  inherit the Group.
\<close>

theorem record_at_depth_8_has_no_group:
  assumes "strlen root = 8" and "dive_directory root name timeoff st = (GIT_WALK_OK, st')"
  shows "(\<exists>w. st' = (snd (create_new_dive w (st\<lparr>active_trip := None\<rparr>)))
               \<lparr>active_dive := Some (length (dive_heap st))\<rparr>)
    \<and> active_trip st' = None
    \<and> active_dive st' = Some (length (dive_heap st))
    \<and> length (dive_heap st') = Suc (length (dive_heap st))
    \<and> divetrip (dive_heap st' ! length (dive_heap st)) = None
    \<and> trip_heap st' = trip_heap st
    \<and> dive_table st' = dive_table st @ [length (dive_heap st)]"
proof -
  from dive_directory_cases[OF assms(2)] assms(1)
  obtain w where w: "st' = (snd (create_new_dive w (st\<lparr>active_trip := None\<rparr>)))
               \<lparr>active_dive := Some (length (dive_heap st))\<rparr>"
    by auto
  have c: "create_new_dive w (st\<lparr>active_trip := None\<rparr>) =
    (length (dive_heap st),
     st\<lparr>active_trip := None,
        dive_heap := dive_heap st @ [\<lparr>dive_when = w, number = None, divetrip = None\<rparr>],
        dive_table := dive_table st @ [length (dive_heap st)]\<rparr>)"
    using create_new_dive_None[of "st\<lparr>active_trip := None\<rparr>" w] by simp
  have e: "\<exists>w. st' = (snd (create_new_dive w (st\<lparr>active_trip := None\<rparr>)))
               \<lparr>active_dive := Some (length (dive_heap st))\<rparr>"
    using w by blast
  have r: "st' = st\<lparr>active_trip := None,
        dive_heap := dive_heap st @ [\<lparr>dive_when = w, number = None, divetrip = None\<rparr>],
        dive_table := dive_table st @ [length (dive_heap st)],
        active_dive := Some (length (dive_heap st))\<rparr>"
    using w c by simp
  show ?thesis using e by (simp add: r)
qed

text \<open>
  The tree \<open>2023/07/13-trip/14-001-10:00:00\<close> followed by \<open>2023/07/20-002-09:00:00\<close>:
  after the Group's subtree the Group is active, and the sibling's Record has no Group.
\<close>

lemma state_in_trip_reached:
  "git_tree_walk example_repo [] tree_trip_only initial_state = (0, state_in_trip)"
  by code_simp

theorem record_at_depth_8_has_no_group_witness:
  "strlen ''2023/07/'' = 8
   \<and> dive_directory ''2023/07/'' ''20-002-09:00:00'' 7 state_in_trip =
       (GIT_WALK_OK,
        \<lparr>dive_heap = [\<lparr>dive_when = 1689328800, number = None, divetrip = Some 0\<rparr>,
                      \<lparr>dive_when = 1689843600, number = None, divetrip = None\<rparr>],
         trip_heap = [\<lparr>trip_when = 1689206400, trip_dives = [0]\<rparr>],
         dive_table = [0, 1],
         active_dive = Some 1, active_trip = None, errors = []\<rparr>)
   \<and> active_trip state_in_trip = Some 0
   \<and> git_tree_walk example_repo [] tree_trip_then_sibling initial_state =
       (0,
        \<lparr>dive_heap = [\<lparr>dive_when = 1689328800, number = None, divetrip = Some 0\<rparr>,
                      \<lparr>dive_when = 1689843600, number = None, divetrip = None\<rparr>],
         trip_heap = [\<lparr>trip_when = 1689206400, trip_dives = [0]\<rparr>],
         dive_table = [0, 1],
         active_dive = Some 1, active_trip = None, errors = []\<rparr>)"
proof -
  have h1: "strlen ''2023/07/'' = 8"
    by code_simp
  have h2: "dive_directory ''2023/07/'' ''20-002-09:00:00'' 7 state_in_trip =
       (GIT_WALK_OK,
        \<lparr>dive_heap = [\<lparr>dive_when = 1689328800, number = None, divetrip = Some 0\<rparr>,
                      \<lparr>dive_when = 1689843600, number = None, divetrip = None\<rparr>],
         trip_heap = [\<lparr>trip_when = 1689206400, trip_dives = [0]\<rparr>],
         dive_table = [0, 1],
         active_dive = Some 1, active_trip = None, errors = []\<rparr>)"
    by code_simp
  have h3: "active_trip state_in_trip = Some 0"
    by (simp add: state_in_trip_def)
  have h4: "git_tree_walk example_repo [] tree_trip_then_sibling initial_state =
       (0,
        \<lparr>dive_heap = [\<lparr>dive_when = 1689328800, number = None, divetrip = Some 0\<rparr>,
                      \<lparr>dive_when = 1689843600, number = None, divetrip = None\<rparr>],
         trip_heap = [\<lparr>trip_when = 1689206400, trip_dives = [0]\<rparr>],
         dive_table = [0, 1],
         active_dive = Some 1, active_trip = None, errors = []\<rparr>)"
    by code_simp
  note t = record_at_depth_8_has_no_group[OF h1 h2]
  show ?thesis using h1 h2 h3 h4 t by simp
qed

section \<open>The shape of a Record directory's name\<close>

lemma digits_prefix_nth:
  assumes "j < digits_prefix name"
  shows "isdigit (name ! j)" and "j < length name"
proof -
  have j: "j < length (takeWhile isdigit name)" using assms by (simp add: digits_prefix_def)
  then have "takeWhile isdigit name ! j \<in> set (takeWhile isdigit name)" by simp
  then have "isdigit (takeWhile isdigit name ! j)" by (rule set_takeWhileD[THEN conjunct2])
  then show "isdigit (name ! j)" using j by (simp add: takeWhile_nth)
  show "j < length name" using j length_takeWhile_le[of isdigit name] by simp
qed

lemma nonunique_length_digits_only:
  assumes "cnth name (int (digits_prefix name)) = NUL"
  shows "nonunique_length name = int (digits_prefix name)"
proof -
  let ?Q = "\<lambda>c. c \<noteq> NUL \<and> c \<noteq> CHR ''~''"
  define ds where "ds = takeWhile isdigit name"
  define r where "r = dropWhile isdigit name"
  have n: "name = ds @ r" by (simp add: ds_def r_def)
  have q: "\<And>c. c \<in> set ds \<Longrightarrow> ?Q c"
    using set_takeWhileD[of _ isdigit name] by (auto simp: isdigit_simps ds_def)
  have c: "cnth (ds @ r) (int (length ds)) = NUL"
    using assms by (simp add: digits_prefix_def ds_def[symmetric] n[symmetric])
  have r: "takeWhile ?Q r = []"
  proof (cases r)
    case Nil
    then show ?thesis by simp
  next
    case (Cons x xs)
    then have "x = NUL" using c by (simp add: cnth_def)
    then show ?thesis using Cons by simp
  qed
  have "takeWhile ?Q (ds @ r) = ds"
    using takeWhile_append2[of ds ?Q r] q r by simp
  then have "takeWhile ?Q name = ds" using n by simp
  then show ?thesis by (simp add: nonunique_length_def digits_prefix_def ds_def)
qed

lemma digits_only_no_colon:
  assumes "cnth name (int (digits_prefix name)) = NUL"
  shows "cnth name (nonunique_length name - 3) \<noteq> CHR '':''"
proof -
  have l: "nonunique_length name = int (digits_prefix name)"
    using nonunique_length_digits_only[OF assms] .
  show ?thesis
  proof (cases "3 \<le> digits_prefix name")
    case True
    then have "digits_prefix name - 3 < digits_prefix name" by simp
    from digits_prefix_nth[OF this] True show ?thesis
      unfolding l cnth_def by (auto simp: isdigit_simps nat_diff_distrib)
  next
    case False
    then show ?thesis unfolding l cnth_def by simp
  qed
qed

lemma dive_directory_too_short:
  assumes "timeoff < 7 \<or> cnth name (timeoff - 1) \<noteq> CHR ''-''"
  shows "dive_directory root name timeoff st = (GIT_WALK_SKIP, st)"
  using assms by (auto simp: dive_directory_def Let_def)

text \<open>
  Claim C10. With \<open>L\<close> the length of the name without its unique suffix: a directory
  for which a Record is created has \<open>L\<close> at least 15, a dash at position \<open>L - 9\<close>
  (right before the time of day) and a colon at position \<open>L - 3\<close>; and a name with the
  colon at \<open>L - 3\<close> but with \<open>L\<close> below 15 or no dash at \<open>L - 9\<close> is skipped with the
  state as it was.
\<close>

theorem record_directory_needs_day_and_dash:
  "(dive_heap (snd (walk_tree_directory root (Tree_entry name es) st)) \<noteq> dive_heap st \<longrightarrow>
      15 \<le> nonunique_length name
      \<and> cnth name (nonunique_length name - 9) = CHR ''-''
      \<and> cnth name (nonunique_length name - 3) = CHR '':'')
   \<and> ((nonunique_length name < 15 \<or> cnth name (nonunique_length name - 9) \<noteq> CHR ''-'')
        \<and> cnth name (nonunique_length name - 3) = CHR '':'' \<longrightarrow>
      walk_tree_directory root (Tree_entry name es) st = (GIT_WALK_SKIP, st))"
proof -
  let ?L = "nonunique_length name"
  have accepted: "15 \<le> ?L \<and> cnth name (?L - 9) = CHR ''-'' \<and> cnth name (?L - 3) = CHR '':''"
    if a: "dive_heap (snd (walk_tree_directory root (Tree_entry name es) st)) \<noteq> dive_heap st"
  proof -
    have col: "cnth name (?L - 3) = CHR '':''"
      using a dive_trip_directory_heap[of root name st]
      by (auto simp: walk_tree_directory_def Let_def split: if_splits)
    then have w: "walk_tree_directory root (Tree_entry name es) st =
                    dive_directory root name (?L - 8) st"
      using a by (auto simp: walk_tree_directory_def Let_def split: if_splits)
    obtain r st' where d: "dive_directory root name (?L - 8) st = (r, st')"
      by (cases "dive_directory root name (?L - 8) st") auto
    have ne: "dive_heap st' \<noteq> dive_heap st" using a w d by simp
    from dive_directory_cases[OF d] ne
    have "7 \<le> ?L - 8 \<and> cnth name (?L - 8 - 1) = CHR ''-''" by auto
    then show ?thesis using col by (simp add: algebra_simps)
  qed
  have rejected: "walk_tree_directory root (Tree_entry name es) st = (GIT_WALK_SKIP, st)"
    if a: "(?L < 15 \<or> cnth name (?L - 9) \<noteq> CHR ''-'') \<and> cnth name (?L - 3) = CHR '':''"
  proof -
    from a have "?L - 8 < 7 \<or> cnth name (?L - 8 - 1) \<noteq> CHR ''-''" by auto
    from dive_directory_too_short[OF this]
    have d: "dive_directory root name (?L - 8) st = (GIT_WALK_SKIP, st)" .
    show ?thesis
      using a d digits_only_no_colon[of name]
      by (auto simp: walk_tree_directory_def Let_def)
  qed
  show ?thesis using accepted rejected by blast
qed

text \<open>
  \<open>15-001-10:30:00\<close> is accepted; \<open>15-1-10:30:00\<close> is too short and
  \<open>15-001x10:30:00\<close> has no dash before the time of day, and both are skipped.
\<close>

theorem record_directory_needs_day_and_dash_witness:
  "dive_heap (snd (walk_tree_directory ''2023/07/'' (Tree_entry ''15-001-10:30:00'' [])
      initial_state)) \<noteq> dive_heap initial_state
   \<and> 15 \<le> nonunique_length ''15-001-10:30:00''
   \<and> cnth ''15-001-10:30:00'' (nonunique_length ''15-001-10:30:00'' - 9) = CHR ''-''
   \<and> nonunique_length ''15-1-10:30:00'' < 15
   \<and> cnth ''15-1-10:30:00'' (nonunique_length ''15-1-10:30:00'' - 3) = CHR '':''
   \<and> walk_tree_directory ''2023/07/'' (Tree_entry ''15-1-10:30:00'' []) initial_state
       = (GIT_WALK_SKIP, initial_state)
   \<and> cnth ''15-001x10:30:00'' (nonunique_length ''15-001x10:30:00'' - 9) \<noteq> CHR ''-''
   \<and> cnth ''15-001x10:30:00'' (nonunique_length ''15-001x10:30:00'' - 3) = CHR '':''
   \<and> walk_tree_directory ''2023/07/'' (Tree_entry ''15-001x10:30:00'' []) initial_state
       = (GIT_WALK_SKIP, initial_state)"
proof -
  have a: "dive_heap (snd (walk_tree_directory ''2023/07/'' (Tree_entry ''15-001-10:30:00'' [])
      initial_state)) \<noteq> dive_heap initial_state"
    by code_simp
  have b: "nonunique_length ''15-1-10:30:00'' < 15"
    "cnth ''15-1-10:30:00'' (nonunique_length ''15-1-10:30:00'' - 3) = CHR '':''"
    by code_simp+
  have c: "cnth ''15-001x10:30:00'' (nonunique_length ''15-001x10:30:00'' - 9) \<noteq> CHR ''-''"
    "cnth ''15-001x10:30:00'' (nonunique_length ''15-001x10:30:00'' - 3) = CHR '':''"
    by code_simp+
  note t1 = record_directory_needs_day_and_dash
    [where root = "''2023/07/''" and name = "''15-001-10:30:00''" and es = "[]"
       and st = initial_state]
  note t2 = record_directory_needs_day_and_dash
    [where root = "''2023/07/''" and name = "''15-1-10:30:00''" and es = "[]"
       and st = initial_state]
  note t3 = record_directory_needs_day_and_dash
    [where root = "''2023/07/''" and name = "''15-001x10:30:00''" and es = "[]"
       and st = initial_state]
  show ?thesis using a b c t1 t2 t3 by blast
qed

section \<open>Rejected directories\<close>

lemma dive_trip_directory_date_rejected:
  assumes "sscanf_ints CHR ''/'' 1 root = [yyyy, mm]"
    and "\<not> validate_date yyyy mm (atoi name)"
  shows "dive_trip_directory root name st = (GIT_WALK_SKIP, st)"
  using assms by (simp add: dive_trip_directory_def Let_def del: sscanf_ints.simps)

lemma dive_directory_date_rejected:
  assumes "7 \<le> timeoff" and "cnth name (timeoff - 1) = CHR ''-''"
    and "sscanf_ints CHR '':'' 2 (cdrop name timeoff) = [h, m, s]"
    and "validate_time h m s"
    and "timeoff < 15 \<longrightarrow> sscanf_ints CHR ''/'' 1 root = [y0, m0]"
    and "yyyy = (if timeoff < 15 then y0 else atoi (cdrop name (timeoff - 15)))"
    and "mm = (if 10 \<le> timeoff then atoi (cdrop name (timeoff - 10)) else m0)"
    and "\<not> validate_date yyyy mm (atoi (cdrop name (timeoff - 7)))"
  shows "dive_directory root name timeoff st =
           (GIT_WALK_SKIP, if strlen root = 8 then st\<lparr>active_trip := None\<rparr> else st)"
proof (cases "timeoff < 15")
  case True
  then have ym: "sscanf_ints CHR ''/'' 1 root = [y0, m0]" using assms(5) by simp
  show ?thesis
    using assms(1-4,6-8) True ym
    unfolding dive_directory_def Let_def create_new_dive_split
    by (auto simp del: sscanf_ints.simps split: if_splits)
next
  case False
  then show ?thesis
    using assms(1-4,6-8)
    unfolding dive_directory_def Let_def create_new_dive_split
    by (auto simp del: sscanf_ints.simps split: if_splits)
qed

lemma dive_directory_prefix_unreadable:
  assumes "7 \<le> timeoff" and "cnth name (timeoff - 1) = CHR ''-''"
    and "sscanf_ints CHR '':'' 2 (cdrop name timeoff) = [h, m, s]"
    and "validate_time h m s"
    and "timeoff < 15" and "length (sscanf_ints CHR ''/'' 1 root) \<noteq> 2"
  shows "dive_directory root name timeoff st =
           (GIT_WALK_SKIP, if strlen root = 8 then st\<lparr>active_trip := None\<rparr> else st)"
  using assms unfolding dive_directory_def Let_def
  by (simp del: sscanf_ints.simps)

lemma git_tree_walk_skip:
  assumes "fst (walk_tree_directory path (Tree_entry n sub) st) = GIT_WALK_SKIP"
  shows "git_tree_walk repo path (Tree_entry n sub # es) st =
           git_tree_walk repo path es (snd (walk_tree_directory path (Tree_entry n sub) st))"
  using assms by (simp add: split_beta)

text \<open>
  Claim C2, as the code has it. A directory whose time of day fails validation, and a
  Group directory whose date fails validation, is skipped with the state as it was. A
  Record directory whose time of day is valid and whose date fails validation is
  skipped too; its date is the day read at \<open>timeoff - 7\<close>, the month read at
  \<open>timeoff - 10\<close> or else taken from the path prefix, and the year read at
  \<open>timeoff - 15\<close> or else taken from the path prefix. The same holds when the year
  has to come from the path prefix and the prefix cannot be read. In both cases the
  state is as it was, except that under a path prefix of exactly 8 characters the
  active Group has been reset to empty. The walk does not go down into a directory
  that is skipped.
\<close>

theorem failed_validation_rejects:
  "(sscanf_ints CHR '':'' 2 (cdrop name timeoff) = [h, m, s] \<and> \<not> validate_time h m s \<longrightarrow>
      dive_directory root name timeoff st = (GIT_WALK_SKIP, st))
   \<and> (sscanf_ints CHR ''/'' 1 root = [y0, m0] \<and> \<not> validate_date y0 m0 (atoi name) \<longrightarrow>
      dive_trip_directory root name st = (GIT_WALK_SKIP, st))
   \<and> (7 \<le> timeoff \<and> cnth name (timeoff - 1) = CHR ''-''
        \<and> sscanf_ints CHR '':'' 2 (cdrop name timeoff) = [h, m, s] \<and> validate_time h m s
        \<and> (timeoff < 15 \<longrightarrow> sscanf_ints CHR ''/'' 1 root = [y0, m0])
        \<and> yyyy = (if timeoff < 15 then y0 else atoi (cdrop name (timeoff - 15)))
        \<and> mm = (if 10 \<le> timeoff then atoi (cdrop name (timeoff - 10)) else m0)
        \<and> \<not> validate_date yyyy mm (atoi (cdrop name (timeoff - 7))) \<longrightarrow>
      dive_directory root name timeoff st =
        (GIT_WALK_SKIP, if strlen root = 8 then st\<lparr>active_trip := None\<rparr> else st))
   \<and> (7 \<le> timeoff \<and> cnth name (timeoff - 1) = CHR ''-''
        \<and> sscanf_ints CHR '':'' 2 (cdrop name timeoff) = [h, m, s] \<and> validate_time h m s
        \<and> timeoff < 15 \<and> length (sscanf_ints CHR ''/'' 1 root) \<noteq> 2 \<longrightarrow>
      dive_directory root name timeoff st =
        (GIT_WALK_SKIP, if strlen root = 8 then st\<lparr>active_trip := None\<rparr> else st))
   \<and> (fst (walk_tree_directory root (Tree_entry name sub) st) = GIT_WALK_SKIP \<longrightarrow>
      git_tree_walk repo root (Tree_entry name sub # es) st =
        git_tree_walk repo root es (snd (walk_tree_directory root (Tree_entry name sub) st)))"
proof -
  note a = dive_directory_time_rejected[of name timeoff h m s root st]
  note b = dive_trip_directory_date_rejected[of root y0 m0 name st]
  note c = dive_directory_date_rejected[of timeoff name h m s root y0 m0 yyyy mm st]
  note d = dive_directory_prefix_unreadable[of timeoff name h m s root st]
  note e = git_tree_walk_skip[of root name sub st repo es]
  show ?thesis
    by (intro conjI impI; (elim conjE)?; (rule a b c d e; assumption))
qed

text \<open>
  \<open>15-001-10:30:61\<close> (time) and the Group directory \<open>45-trip\<close> (date) leave the state
  as it was, and the subtree of \<open>45-trip\<close> is not walked. \<open>32-001-10:30:00\<close> is
  skipped for its date: under \<open>2023/07/13-trip/\<close> (16 characters) the state is as it
  was, under \<open>2023/07/\<close> (8 characters) the active Group is reset.
  \<open>1960-07-15-001-10:30:00\<close> is skipped for the year in its name, and
  \<open>15-001-10:30:00\<close> under \<open>pictures/\<close> because the prefix has no year.
\<close>

theorem failed_validation_rejects_witness:
  "sscanf_ints CHR '':'' 2 (cdrop ''15-001-10:30:61'' 7) = [10, 30, 61]
   \<and> \<not> validate_time 10 30 61
   \<and> dive_directory ''2023/07/'' ''15-001-10:30:61'' 7 state_in_trip
       = (GIT_WALK_SKIP, state_in_trip)
   \<and> sscanf_ints CHR ''/'' 1 ''2023/07/'' = [2023, 7]
   \<and> \<not> validate_date 2023 7 (atoi ''45-trip'')
   \<and> dive_trip_directory ''2023/07/'' ''45-trip'' state_in_trip
       = (GIT_WALK_SKIP, state_in_trip)
   \<and> sscanf_ints CHR '':'' 2 (cdrop ''32-001-10:30:00'' 7) = [10, 30, 0]
   \<and> validate_time 10 30 0
   \<and> sscanf_ints CHR ''/'' 1 ''2023/07/13-trip/'' = [2023, 7]
   \<and> \<not> validate_date 2023 7 (atoi (cdrop ''32-001-10:30:00'' (7 - 7)))
   \<and> dive_directory ''2023/07/13-trip/'' ''32-001-10:30:00'' 7 state_in_trip
       = (GIT_WALK_SKIP, state_in_trip)
   \<and> dive_directory ''2023/07/'' ''32-001-10:30:00'' 7 state_in_trip
       = (GIT_WALK_SKIP, state_in_trip\<lparr>active_trip := None\<rparr>)
   \<and> \<not> validate_date (atoi (cdrop ''1960-07-15-001-10:30:00'' (15 - 15)))
         (atoi (cdrop ''1960-07-15-001-10:30:00'' (15 - 10)))
         (atoi (cdrop ''1960-07-15-001-10:30:00'' (15 - 7)))
   \<and> dive_directory ''2023/07/13-trip/'' ''1960-07-15-001-10:30:00'' 15 state_in_trip
       = (GIT_WALK_SKIP, state_in_trip)
   \<and> length (sscanf_ints CHR ''/'' 1 ''pictures/'') \<noteq> 2
   \<and> dive_directory ''pictures/'' ''15-001-10:30:00'' 7 state_in_trip
       = (GIT_WALK_SKIP, state_in_trip)
   \<and> fst (walk_tree_directory ''2023/07/'' (Tree_entry ''45-trip'' [Tree_entry ''14-001-10:00:00'' []])
        state_in_trip) = GIT_WALK_SKIP
   \<and> git_tree_walk example_repo ''2023/07/''
        [Tree_entry ''45-trip'' [Tree_entry ''14-001-10:00:00'' []]] state_in_trip
       = (0, state_in_trip)"
proof -
  have a: "sscanf_ints CHR '':'' 2 (cdrop ''15-001-10:30:61'' 7) = [10, 30, 61]"
    "\<not> validate_time 10 30 61"
    by code_simp+
  have b: "sscanf_ints CHR ''/'' 1 ''2023/07/'' = [2023, 7]"
    "\<not> validate_date 2023 7 (atoi ''45-trip'')"
    by code_simp+
  have c: "7 \<le> (7::int)" "cnth ''32-001-10:30:00'' (7 - 1) = CHR ''-''"
    "sscanf_ints CHR '':'' 2 (cdrop ''32-001-10:30:00'' 7) = [10, 30, 0]"
    "validate_time 10 30 0"
    "sscanf_ints CHR ''/'' 1 ''2023/07/13-trip/'' = [2023, 7]"
    "\<not> validate_date 2023 7 (atoi (cdrop ''32-001-10:30:00'' (7 - 7)))"
    "strlen ''2023/07/13-trip/'' \<noteq> 8" "strlen ''2023/07/'' = 8"
    by code_simp+
  have y: "7 \<le> (15::int)" "cnth ''1960-07-15-001-10:30:00'' (15 - 1) = CHR ''-''"
    "sscanf_ints CHR '':'' 2 (cdrop ''1960-07-15-001-10:30:00'' 15) = [10, 30, 0]"
    "\<not> validate_date (atoi (cdrop ''1960-07-15-001-10:30:00'' (15 - 15)))
         (atoi (cdrop ''1960-07-15-001-10:30:00'' (15 - 10)))
         (atoi (cdrop ''1960-07-15-001-10:30:00'' (15 - 7)))"
    by code_simp+
  have p: "cnth ''15-001-10:30:00'' (7 - 1) = CHR ''-''"
    "sscanf_ints CHR '':'' 2 (cdrop ''15-001-10:30:00'' 7) = [10, 30, 0]"
    "length (sscanf_ints CHR ''/'' 1 ''pictures/'') \<noteq> 2"
    "strlen ''pictures/'' \<noteq> 8"
    by code_simp+
  have d: "fst (walk_tree_directory ''2023/07/''
        (Tree_entry ''45-trip'' [Tree_entry ''14-001-10:00:00'' []]) state_in_trip)
       = GIT_WALK_SKIP"
    "snd (walk_tree_directory ''2023/07/''
        (Tree_entry ''45-trip'' [Tree_entry ''14-001-10:00:00'' []]) state_in_trip)
       = state_in_trip"
    by code_simp+
  note t1 = failed_validation_rejects
    [where name = "''15-001-10:30:61''" and timeoff = 7 and h = 10 and m = 30 and s = 61
       and root = "''2023/07/''" and st = state_in_trip, THEN conjunct1]
  note t2 = failed_validation_rejects
    [where name = "''45-trip''" and ?y0.0 = 2023 and ?m0.0 = 7
       and root = "''2023/07/''" and st = state_in_trip, THEN conjunct2, THEN conjunct1]
  note t3 = failed_validation_rejects
    [where name = "''32-001-10:30:00''" and timeoff = 7 and h = 10 and m = 30 and s = 0
       and root = "''2023/07/13-trip/''" and ?y0.0 = 2023 and ?m0.0 = 7
       and yyyy = 2023 and mm = 7 and st = state_in_trip,
     THEN conjunct2, THEN conjunct2, THEN conjunct1]
  note t4 = failed_validation_rejects
    [where name = "''32-001-10:30:00''" and timeoff = 7 and h = 10 and m = 30 and s = 0
       and root = "''2023/07/''" and ?y0.0 = 2023 and ?m0.0 = 7
       and yyyy = 2023 and mm = 7 and st = state_in_trip,
     THEN conjunct2, THEN conjunct2, THEN conjunct1]
  note t5 = failed_validation_rejects
    [where name = "''1960-07-15-001-10:30:00''" and timeoff = 15
       and h = 10 and m = 30 and s = 0
       and root = "''2023/07/13-trip/''"
       and yyyy = "atoi (cdrop ''1960-07-15-001-10:30:00'' (15 - 15))"
       and mm = "atoi (cdrop ''1960-07-15-001-10:30:00'' (15 - 10))"
       and st = state_in_trip,
     THEN conjunct2, THEN conjunct2, THEN conjunct1]
  note t6 = failed_validation_rejects
    [where name = "''15-001-10:30:00''" and timeoff = 7 and h = 10 and m = 30 and s = 0
       and root = "''pictures/''" and st = state_in_trip,
     THEN conjunct2, THEN conjunct2, THEN conjunct2, THEN conjunct1]
  note t7 = failed_validation_rejects
    [where name = "''45-trip''" and sub = "[Tree_entry ''14-001-10:00:00'' []]"
       and root = "''2023/07/''" and st = state_in_trip and repo = example_repo
       and es = "[]",
     THEN conjunct2, THEN conjunct2, THEN conjunct2, THEN conjunct2]
  have r1: "dive_directory ''2023/07/'' ''15-001-10:30:61'' 7 state_in_trip
       = (GIT_WALK_SKIP, state_in_trip)"
    using t1 a by blast
  have r2: "dive_trip_directory ''2023/07/'' ''45-trip'' state_in_trip
       = (GIT_WALK_SKIP, state_in_trip)"
    using t2 b by blast
  have r3: "dive_directory ''2023/07/13-trip/'' ''32-001-10:30:00'' 7 state_in_trip
       = (GIT_WALK_SKIP, state_in_trip)"
    using t3 c by simp
  have r4: "dive_directory ''2023/07/'' ''32-001-10:30:00'' 7 state_in_trip
       = (GIT_WALK_SKIP, state_in_trip\<lparr>active_trip := None\<rparr>)"
    using t4 c b(1) by simp
  have r5: "dive_directory ''2023/07/13-trip/'' ''1960-07-15-001-10:30:00'' 15 state_in_trip
       = (GIT_WALK_SKIP, state_in_trip)"
    using t5 y c(4,7) by simp
  have r6: "dive_directory ''pictures/'' ''15-001-10:30:00'' 7 state_in_trip
       = (GIT_WALK_SKIP, state_in_trip)"
    using t6 p c(1,4) by simp
  have r7: "git_tree_walk example_repo ''2023/07/''
        [Tree_entry ''45-trip'' [Tree_entry ''14-001-10:00:00'' []]] state_in_trip
       = (0, state_in_trip)"
    using t7 d by simp
  show ?thesis
    using a b c(3,4,5,6) y(4) p(3) d(1) r1 r2 r3 r4 r5 r6 r7 by (intro conjI)
qed

text \<open>
  Claim C2 as the spec states it fails. With the Group of \<open>2023/07/13-trip\<close> active,
  the directory \<open>32-001-10:30:00\<close> under \<open>2023/07/\<close> decodes to the date 2023-07-32,
  which fails validation; the directory is skipped, and the active Group is empty
  afterwards.
\<close>

theorem rejected_date_resets_group_counterexample:
  "active_trip state_in_trip = Some 0
   \<and> atoi ''32-001-10:30:00'' = 32
   \<and> sscanf_ints CHR ''/'' 1 ''2023/07/'' = [2023, 7]
   \<and> \<not> validate_date 2023 7 32
   \<and> walk_tree_directory ''2023/07/'' (Tree_entry ''32-001-10:30:00'' []) state_in_trip
       = (GIT_WALK_SKIP, state_in_trip\<lparr>active_trip := None\<rparr>)
   \<and> active_trip (snd (walk_tree_directory ''2023/07/'' (Tree_entry ''32-001-10:30:00'' [])
        state_in_trip)) \<noteq> active_trip state_in_trip"
  by code_simp

section \<open>Classes of directory names\<close>

lemma digits_prefix_all:
  assumes "list_all isdigit name"
  shows "digits_prefix name = length name"
proof -
  have "takeWhile isdigit name = name" using assms by (simp add: list_all_iff)
  then show ?thesis unfolding digits_prefix_def by (rule arg_cong)
qed

lemma digits_prefix_full:
  assumes "digits_prefix name = length name"
  shows "list_all isdigit name"
proof -
  have "length (takeWhile isdigit name) = length name" using assms by (simp add: digits_prefix_def)
  then have "takeWhile isdigit name = name"
    by (metis length_append takeWhile_dropWhile_id add_cancel_right_right length_0_conv append_Nil2)
  then show ?thesis by (simp add: list_all_iff takeWhile_eq_all_conv)
qed

lemma digits_prefix_le: "digits_prefix name \<le> length name"
  by (simp add: digits_prefix_def length_takeWhile_le)

text \<open>
  Claim C7. For a name without a NUL character: a transparent name (digits only, of
  length 2 or 4) is descended into with the state as it was; a rejected name (not
  starting with exactly 2 or 4 digits, or with another character than a dash after
  them) is skipped with the state as it was; every other name goes to the decoder of
  Record directories when it has the colon of the time of day, to the decoder of Group
  directories when it has not and starts with 2 digits, and is skipped otherwise. So a
  name of 4 digits and a dash without the colon is skipped with the state as it was,
  and is never decoded as a Group directory.
\<close>

theorem directory_classes:
  assumes "NUL \<notin> set name"
  shows "(spec_dir_class name = Transparent \<longrightarrow>
            walk_tree_directory root (Tree_entry name es) st = (GIT_WALK_OK, st))
    \<and> (spec_dir_class name = Rejected \<longrightarrow>
            walk_tree_directory root (Tree_entry name es) st = (GIT_WALK_SKIP, st))
    \<and> (spec_dir_class name = Decode \<longrightarrow>
            walk_tree_directory root (Tree_entry name es) st =
              (if cnth name (nonunique_length name - 3) = CHR '':''
               then dive_directory root name (nonunique_length name - 8) st
               else if digits_prefix name = 2 then dive_trip_directory root name st
               else (GIT_WALK_SKIP, st)))
    \<and> (digits_prefix name = 4 \<and> cnth name 4 = CHR ''-''
         \<and> cnth name (nonunique_length name - 3) \<noteq> CHR '':'' \<longrightarrow>
            walk_tree_directory root (Tree_entry name es) st = (GIT_WALK_SKIP, st))"
proof -
  let ?d = "digits_prefix name"
  have transparent: "walk_tree_directory root (Tree_entry name es) st = (GIT_WALK_OK, st)"
    if "spec_dir_class name = Transparent"
  proof -
    from that have a: "list_all isdigit name" "length name = 2 \<or> length name = 4"
      by (auto simp: spec_dir_class_def split: if_splits)
    have "?d = length name" using digits_prefix_all[OF a(1)] .
    then show ?thesis using a(2) by (auto simp: walk_tree_directory_def Let_def cnth_def)
  qed
  have rejected: "walk_tree_directory root (Tree_entry name es) st = (GIT_WALK_SKIP, st)"
    if "spec_dir_class name = Rejected"
  proof -
    from that have "(?d \<noteq> 2 \<and> ?d \<noteq> 4) \<or> (?d < length name \<and> name ! ?d \<noteq> CHR ''-'')"
      by (auto simp: spec_dir_class_def split: if_splits)
    then show ?thesis
    proof
      assume "?d \<noteq> 2 \<and> ?d \<noteq> 4"
      then show ?thesis by (simp add: walk_tree_directory_def Let_def)
    next
      assume b: "?d < length name \<and> name ! ?d \<noteq> CHR ''-''"
      then have "name ! ?d \<in> set name" by simp
      then have "name ! ?d \<noteq> NUL" using assms by metis
      then show ?thesis using b by (simp add: walk_tree_directory_def Let_def cnth_def)
    qed
  qed
  have decode: "walk_tree_directory root (Tree_entry name es) st =
              (if cnth name (nonunique_length name - 3) = CHR '':''
               then dive_directory root name (nonunique_length name - 8) st
               else if ?d = 2 then dive_trip_directory root name st
               else (GIT_WALK_SKIP, st))"
    if "spec_dir_class name = Decode"
  proof -
    from that have nt: "\<not> (list_all isdigit name \<and> (length name = 2 \<or> length name = 4))"
      and d: "?d = 2 \<or> ?d = 4"
      and c: "\<not> (?d < length name \<and> name ! ?d \<noteq> CHR ''-'')"
      by (auto simp: spec_dir_class_def split: if_splits)
    have "?d < length name"
    proof (rule ccontr)
      assume "\<not> ?d < length name"
      then have "?d = length name" using digits_prefix_le[of name] by simp
      then show False using nt d digits_prefix_full[of name] by auto
    qed
    then have "cnth name (int ?d) = CHR ''-''" using c by (simp add: cnth_def)
    then show ?thesis using d by (auto simp: walk_tree_directory_def Let_def)
  qed
  have four: "walk_tree_directory root (Tree_entry name es) st = (GIT_WALK_SKIP, st)"
    if "?d = 4 \<and> cnth name 4 = CHR ''-'' \<and> cnth name (nonunique_length name - 3) \<noteq> CHR '':''"
    using that by (simp add: walk_tree_directory_def Let_def)
  show ?thesis using transparent rejected decode four by blast
qed

text \<open>
  \<open>2023\<close> is transparent, \<open>123\<close> and \<open>07.bak\<close> are rejected, \<open>13-trip\<close> goes to the
  decoder of Group directories, and \<open>2023-trip\<close> is skipped.
\<close>

theorem directory_classes_witness:
  "NUL \<notin> set ''2023''
   \<and> spec_dir_class ''2023'' = Transparent
   \<and> walk_tree_directory [] (Tree_entry ''2023'' []) state_in_trip
       = (GIT_WALK_OK, state_in_trip)
   \<and> NUL \<notin> set ''123''
   \<and> spec_dir_class ''123'' = Rejected
   \<and> walk_tree_directory [] (Tree_entry ''123'' []) state_in_trip
       = (GIT_WALK_SKIP, state_in_trip)
   \<and> NUL \<notin> set ''07.bak''
   \<and> spec_dir_class ''07.bak'' = Rejected
   \<and> walk_tree_directory ''2023/'' (Tree_entry ''07.bak'' []) state_in_trip
       = (GIT_WALK_SKIP, state_in_trip)
   \<and> NUL \<notin> set ''13-trip''
   \<and> spec_dir_class ''13-trip'' = Decode
   \<and> walk_tree_directory ''2023/07/'' (Tree_entry ''13-trip'' []) state_in_trip
       = dive_trip_directory ''2023/07/'' ''13-trip'' state_in_trip
   \<and> NUL \<notin> set ''2023-trip''
   \<and> digits_prefix ''2023-trip'' = 4
   \<and> cnth ''2023-trip'' 4 = CHR ''-''
   \<and> cnth ''2023-trip'' (nonunique_length ''2023-trip'' - 3) \<noteq> CHR '':''
   \<and> walk_tree_directory ''2023/07/'' (Tree_entry ''2023-trip'' []) state_in_trip
       = (GIT_WALK_SKIP, state_in_trip)"
proof -
  have a: "NUL \<notin> set ''2023''" "spec_dir_class ''2023'' = Transparent"
    by code_simp+
  have b: "NUL \<notin> set ''123''" "spec_dir_class ''123'' = Rejected"
    by code_simp+
  have c: "NUL \<notin> set ''07.bak''" "spec_dir_class ''07.bak'' = Rejected"
    by code_simp+
  have d: "NUL \<notin> set ''13-trip''" "spec_dir_class ''13-trip'' = Decode"
    "cnth ''13-trip'' (nonunique_length ''13-trip'' - 3) \<noteq> CHR '':''"
    "digits_prefix ''13-trip'' = 2"
    by code_simp+
  have e: "NUL \<notin> set ''2023-trip''" "digits_prefix ''2023-trip'' = 4"
    "cnth ''2023-trip'' 4 = CHR ''-''"
    "cnth ''2023-trip'' (nonunique_length ''2023-trip'' - 3) \<noteq> CHR '':''"
    by code_simp+
  note ta = directory_classes[OF a(1), where root = "[]" and es = "[]" and st = state_in_trip]
  note tb = directory_classes[OF b(1), where root = "[]" and es = "[]" and st = state_in_trip]
  note tc = directory_classes
    [OF c(1), where root = "''2023/''" and es = "[]" and st = state_in_trip]
  note td = directory_classes
    [OF d(1), where root = "''2023/07/''" and es = "[]" and st = state_in_trip]
  note te = directory_classes
    [OF e(1), where root = "''2023/07/''" and es = "[]" and st = state_in_trip]
  have ra: "walk_tree_directory [] (Tree_entry ''2023'' []) state_in_trip
       = (GIT_WALK_OK, state_in_trip)"
    using ta a by blast
  have rb: "walk_tree_directory [] (Tree_entry ''123'' []) state_in_trip
       = (GIT_WALK_SKIP, state_in_trip)"
    using tb b by blast
  have rc: "walk_tree_directory ''2023/'' (Tree_entry ''07.bak'' []) state_in_trip
       = (GIT_WALK_SKIP, state_in_trip)"
    using tc c by blast
  have rd: "walk_tree_directory ''2023/07/'' (Tree_entry ''13-trip'' []) state_in_trip
       = dive_trip_directory ''2023/07/'' ''13-trip'' state_in_trip"
    using td d by simp
  have re: "walk_tree_directory ''2023/07/'' (Tree_entry ''2023-trip'' []) state_in_trip
       = (GIT_WALK_SKIP, state_in_trip)"
    using te e by blast
  show ?thesis using a b c d e ra rb rc rd re by blast
qed

section \<open>Failures\<close>

text \<open>
  Claim C8. The callback answers \<open>GIT_WALK_OK\<close> for every file node, whatever
  \<open>walk_tree_file\<close> returned, and the walk goes on with the next sibling. When the
  repository does not open, the branch is not found, or the branch does not peel to a
  tree, the load reports the error and returns \<open>- 1\<close>; Records, Groups and the table
  of registered Records are what they were before.
\<close>

theorem file_failures_continue_fatal_failures_abort:
  "fst (walk_tree_cb path (Blob_entry n i) repo st) = GIT_WALK_OK
   \<and> git_tree_walk repo path (Blob_entry n i # es) st =
       git_tree_walk repo path es (snd (walk_tree_file path (Blob_entry n i) repo st))
   \<and> (split_branch (trim_location location) = (loc, branch) \<and> git_repository_open loc = None
        \<longrightarrow> git_load_dives git_repository_open location st =
             (- 1, st\<lparr>errors := errors st @ [Unable_to_open_repository loc branch]\<rparr>))
   \<and> (split_branch (trim_location location) = (loc, branch)
        \<and> git_repository_open loc = Some repo
        \<longrightarrow> git_load_dives git_repository_open location st = do_git_load repo branch st)
   \<and> (local_branches repo branch = None
        \<longrightarrow> do_git_load repo branch st =
             (- 1, st\<lparr>errors := errors st @ [Unable_to_look_up_branch branch]\<rparr>))
   \<and> (local_branches repo branch = Some None
        \<longrightarrow> do_git_load repo branch st =
             (- 1, st\<lparr>errors := errors st @ [Could_not_look_up_tree branch]\<rparr>))"
  by (simp add: split_beta git_load_dives_def do_git_load_def report_error_def)

text \<open>
  With unreadable blobs the file \<open>Dive-5\<close> fails to load and \<open>Unrelated.txt\<close> is
  still visited after it. The location \<open>git /tmp/dives:master\<close> fails when no
  repository opens, when the branch is not found, and when it does not peel.
\<close>

theorem file_failures_continue_fatal_failures_abort_witness:
  "walk_tree_file ''2023/07/15-001-10:30:00/'' (Blob_entry ''Dive-5'' 0) unreadable_repo
      state_one_dive
     = (- 1, state_one_dive\<lparr>errors := [Unable_to_read_dive_file]\<rparr>)
   \<and> git_tree_walk unreadable_repo ''2023/07/15-001-10:30:00/''
        [Blob_entry ''Dive-5'' 0, Blob_entry ''Unrelated.txt'' 1] state_one_dive
     = (0, state_one_dive\<lparr>errors :=
          [Unable_to_read_dive_file,
           Unknown_file ''2023/07/15-001-10:30:00/'' ''Unrelated.txt'' (Some 0) None]\<rparr>)
   \<and> split_branch (trim_location ''git /tmp/dives:master  '') = (''/tmp/dives'', Some ''master'')
   \<and> no_repository ''/tmp/dives'' = None
   \<and> git_load_dives no_repository ''git /tmp/dives:master  '' state_one_dive
     = (- 1, state_one_dive\<lparr>errors :=
          [Unable_to_open_repository ''/tmp/dives'' (Some ''master'')]\<rparr>)
   \<and> one_repository ''/tmp/dives'' = Some example_repo
   \<and> local_branches example_repo (Some ''master'') = None
   \<and> git_load_dives one_repository ''git /tmp/dives:master  '' state_one_dive
     = (- 1, state_one_dive\<lparr>errors := [Unable_to_look_up_branch (Some ''master'')]\<rparr>)
   \<and> local_branches unpeelable_repo (Some ''master'') = Some None
   \<and> do_git_load unpeelable_repo (Some ''master'') state_one_dive
     = (- 1, state_one_dive\<lparr>errors := [Could_not_look_up_tree (Some ''master'')]\<rparr>)"
proof -
  let ?P = "''2023/07/15-001-10:30:00/''"
  have f1: "walk_tree_file ?P (Blob_entry ''Dive-5'' 0) unreadable_repo state_one_dive
     = (- 1, state_one_dive\<lparr>errors := [Unable_to_read_dive_file]\<rparr>)"
    by code_simp
  have f2: "git_tree_walk unreadable_repo ?P [Blob_entry ''Unrelated.txt'' 1]
        (state_one_dive\<lparr>errors := [Unable_to_read_dive_file]\<rparr>)
     = (0, state_one_dive\<lparr>errors :=
          [Unable_to_read_dive_file, Unknown_file ?P ''Unrelated.txt'' (Some 0) None]\<rparr>)"
    by code_simp
  have s: "split_branch (trim_location ''git /tmp/dives:master  '')
             = (''/tmp/dives'', Some ''master'')"
    by code_simp
  have o1: "no_repository ''/tmp/dives'' = None"
    by (simp add: no_repository_def)
  have o2: "one_repository ''/tmp/dives'' = Some example_repo"
    by (simp add: one_repository_def)
  have b1: "local_branches example_repo (Some ''master'') = None"
    by (simp add: example_repo_def)
  have b2: "local_branches unpeelable_repo (Some ''master'') = Some None"
    by (simp add: unpeelable_repo_def)
  have e: "errors state_one_dive = []"
    by (simp add: state_one_dive_def)
  note t1 = file_failures_continue_fatal_failures_abort
    [where path = ?P and n = "''Dive-5''" and i = 0 and repo = unreadable_repo
       and st = state_one_dive and es = "[Blob_entry ''Unrelated.txt'' 1]",
     THEN conjunct2, THEN conjunct1]
  note t2 = file_failures_continue_fatal_failures_abort
    [where location = "''git /tmp/dives:master  ''" and loc = "''/tmp/dives''"
       and branch = "Some ''master''" and git_repository_open = no_repository
       and st = state_one_dive,
     THEN conjunct2, THEN conjunct2, THEN conjunct1]
  note t3 = file_failures_continue_fatal_failures_abort
    [where location = "''git /tmp/dives:master  ''" and loc = "''/tmp/dives''"
       and branch = "Some ''master''" and git_repository_open = one_repository
       and repo = example_repo and st = state_one_dive]
  note t4 = file_failures_continue_fatal_failures_abort
    [where branch = "Some ''master''" and repo = unpeelable_repo and st = state_one_dive]
  have r1: "git_tree_walk unreadable_repo ?P
        [Blob_entry ''Dive-5'' 0, Blob_entry ''Unrelated.txt'' 1] state_one_dive
     = (0, state_one_dive\<lparr>errors :=
          [Unable_to_read_dive_file, Unknown_file ?P ''Unrelated.txt'' (Some 0) None]\<rparr>)"
    using t1 f1 f2 by simp
  have r2: "git_load_dives no_repository ''git /tmp/dives:master  '' state_one_dive
     = (- 1, state_one_dive\<lparr>errors :=
          [Unable_to_open_repository ''/tmp/dives'' (Some ''master'')]\<rparr>)"
    using t2 s o1 e by simp
  have r3: "git_load_dives one_repository ''git /tmp/dives:master  '' state_one_dive
     = (- 1, state_one_dive\<lparr>errors := [Unable_to_look_up_branch (Some ''master'')]\<rparr>)"
    using t3 s o2 b1 e by simp
  have r4: "do_git_load unpeelable_repo (Some ''master'') state_one_dive
     = (- 1, state_one_dive\<lparr>errors := [Could_not_look_up_tree (Some ''master'')]\<rparr>)"
    using t4 b2 e by simp
  show ?thesis using f1 s o1 o2 b1 b2 r1 r2 r3 r4 by blast
qed

section \<open>Decoding a Record directory\<close>

lemma sscanf_ints_two:
  assumes "a \<noteq> []" "list_all isdigit a" "b \<noteq> []" "list_all isdigit b"
    and "\<not> isdigit sep"
    and "r = [] \<or> \<not> isdigit (hd r)"
    and "length a \<le> 9" "length b \<le> 9"
  shows "sscanf_ints sep 1 (a @ sep # b @ r) = [digits_value 0 a, digits_value 0 b]"
proof -
  have 1: "scan_int (a @ sep # b @ r) = Some (digits_value 0 a, sep # b @ r)"
    using scan_int_digits[of a "sep # b @ r"] assms by simp
  have 2: "scan_int (b @ r) = Some (digits_value 0 b, r)"
    using scan_int_digits[of b r] assms by simp
  have "sscanf_ints sep (Suc 0) (a @ sep # b @ r) = [digits_value 0 a, digits_value 0 b]"
    by (simp add: 1 2)
  then show ?thesis by simp
qed

lemma sscanf_ints_three:
  assumes "a \<noteq> []" "list_all isdigit a" "b \<noteq> []" "list_all isdigit b"
    and "c \<noteq> []" "list_all isdigit c"
    and "\<not> isdigit sep"
    and "r = [] \<or> \<not> isdigit (hd r)"
    and "length a \<le> 9" "length b \<le> 9" "length c \<le> 9"
  shows "sscanf_ints sep 2 (a @ sep # b @ sep # c @ r) =
           [digits_value 0 a, digits_value 0 b, digits_value 0 c]"
proof -
  have 1: "scan_int (a @ sep # b @ sep # c @ r) = Some (digits_value 0 a, sep # b @ sep # c @ r)"
    using scan_int_digits[of a "sep # b @ sep # c @ r"] assms by simp
  have 2: "sscanf_ints sep (Suc 0) (b @ sep # c @ r) = [digits_value 0 b, digits_value 0 c]"
    using sscanf_ints_two[of b c sep r] assms by simp
  have "sscanf_ints sep (Suc (Suc 0)) (a @ sep # b @ sep # c @ r) =
           [digits_value 0 a, digits_value 0 b, digits_value 0 c]"
    using 1 2 by (simp del: sscanf_ints.simps(1) One_nat_def)
  then show ?thesis by (simp add: numeral_2_eq_2)
qed

lemma suffix_cut:
  assumes "sfx = [] \<or> hd sfx = CHR ''~''"
  shows "takeWhile (\<lambda>c. c \<noteq> NUL \<and> c \<noteq> CHR ''~'') sfx = []" and "sfx = [] \<or> \<not> isdigit (hd sfx)"
  using assms by (cases sfx; auto simp: isdigit_def)+

lemma dive_directory_accept:
  assumes "7 \<le> timeoff" and "cnth name (timeoff - 1) = CHR ''-''"
    and "sscanf_ints CHR '':'' 2 (cdrop name timeoff) = [h, m, s]"
    and "validate_time h m s"
    and "timeoff < 15 \<longrightarrow> sscanf_ints CHR ''/'' 1 root = [y0, m0]"
    and "yyyy = (if timeoff < 15 then y0 else atoi (cdrop name (timeoff - 15)))"
    and "mm = (if 10 \<le> timeoff then atoi (cdrop name (timeoff - 10)) else m0)"
    and "dd = atoi (cdrop name (timeoff - 7))"
    and "validate_date yyyy mm dd"
  shows "dive_directory root name timeoff st =
    (GIT_WALK_OK,
     (snd (create_new_dive
        (utc_mktime \<lparr>tm_sec = s, tm_min = m, tm_hour = h,
                     tm_mday = dd, tm_mon = mm - 1, tm_year = yyyy - 1900\<rparr>)
        (if strlen root = 8 then st\<lparr>active_trip := None\<rparr> else st)))
     \<lparr>active_dive := Some (length (dive_heap st))\<rparr>)"
proof (cases "timeoff < 15")
  case True
  then have ym: "sscanf_ints CHR ''/'' 1 root = [y0, m0]" using assms(5) by simp
  show ?thesis
    using assms(1-4,6-9) True ym
    unfolding dive_directory_def Let_def create_new_dive_split
    by (auto simp del: sscanf_ints.simps split: if_splits)
next
  case False
  then show ?thesis
    using assms(1-4,6-9)
    unfolding dive_directory_def Let_def create_new_dive_split
    by (auto simp del: sscanf_ints.simps split: if_splits)
qed

lemma record_name_full:
  assumes dg: "isdigit y1" "isdigit y2" "isdigit y3" "isdigit y4" "isdigit m1" "isdigit m2"
      "isdigit d1" "isdigit d2" "isdigit h1" "isdigit h2" "isdigit i1" "isdigit i2"
      "isdigit s1" "isdigit s2"
    and tg: "t1 \<noteq> NUL" "t1 \<noteq> CHR ''~''" "t2 \<noteq> NUL" "t2 \<noteq> CHR ''~''"
      "t3 \<noteq> NUL" "t3 \<noteq> CHR ''~''"
    and sf: "sfx = [] \<or> hd sfx = CHR ''~''"
    and nm: "name = [y1, y2, y3, y4, CHR ''-'', m1, m2, CHR ''-'', d1, d2, CHR ''-'',
                     t1, t2, t3, CHR ''-'', h1, h2, CHR '':'', i1, i2, CHR '':'', s1, s2] @ sfx"
    and vd: "validate_date (digits_value 0 [y1, y2, y3, y4]) (digits_value 0 [m1, m2])
               (digits_value 0 [d1, d2])"
    and vt: "validate_time (digits_value 0 [h1, h2]) (digits_value 0 [i1, i2])
               (digits_value 0 [s1, s2])"
  shows "walk_tree_directory root (Tree_entry name es) st =
    (GIT_WALK_OK,
     (snd (create_new_dive
        (utc_mktime \<lparr>tm_sec = digits_value 0 [s1, s2], tm_min = digits_value 0 [i1, i2],
                     tm_hour = digits_value 0 [h1, h2],
                     tm_mday = digits_value 0 [d1, d2],
                     tm_mon = digits_value 0 [m1, m2] - 1,
                     tm_year = digits_value 0 [y1, y2, y3, y4] - 1900\<rparr>)
        (if strlen root = 8 then st\<lparr>active_trip := None\<rparr> else st)))
     \<lparr>active_dive := Some (length (dive_heap st))\<rparr>)"
proof -
  note sc = suffix_cut[OF sf]
  have nd: "\<not> isdigit CHR ''-''" "\<not> isdigit CHR '':''" by (simp_all add: isdigit_def)
  have dp: "digits_prefix name = 4"
    using dg nd by (simp add: digits_prefix_def nm)
  have c4: "cnth name 4 = CHR ''-''"
    by (simp add: cnth_def nm)
  have nl: "nonunique_length name = 23"
    using dg tg sc(1) by (simp add: nonunique_length_def nm isdigit_simps)
  have c20: "cnth name 20 = CHR '':''" and c14: "cnth name 14 = CHR ''-''"
    by (simp_all add: cnth_def nm)
  have hms: "sscanf_ints CHR '':'' 2 (cdrop name 15) =
      [digits_value 0 [h1, h2], digits_value 0 [i1, i2], digits_value 0 [s1, s2]]"
    using sscanf_ints_three[of "[h1, h2]" "[i1, i2]" "[s1, s2]" "CHR '':''" sfx] dg nd sc(2)
    by (simp add: cdrop_def nm)
  have ay: "atoi (cdrop name 0) = digits_value 0 [y1, y2, y3, y4]"
    using atoi_digits[of "[y1, y2, y3, y4]" "drop 4 name"] dg nd
    by (simp add: cdrop_def nm)
  have am: "atoi (cdrop name 5) = digits_value 0 [m1, m2]"
    using atoi_digits[of "[m1, m2]" "drop 7 name"] dg nd
    by (simp add: cdrop_def nm)
  have ad: "atoi (cdrop name 8) = digits_value 0 [d1, d2]"
    using atoi_digits[of "[d1, d2]" "drop 10 name"] dg nd
    by (simp add: cdrop_def nm)
  have w: "walk_tree_directory root (Tree_entry name es) st = dive_directory root name 15 st"
    using dp c4 nl c20 by (simp add: walk_tree_directory_def Let_def)
  show ?thesis
    unfolding w
    by (rule dive_directory_accept[where ?y0.0 = 0 and ?m0.0 = 0])
       (insert vd vt, simp_all add: c14 hms ay am ad)
qed

lemma record_name_short:
  assumes dg: "isdigit y1" "isdigit y2" "isdigit y3" "isdigit y4" "isdigit m1" "isdigit m2"
      "isdigit d1" "isdigit d2" "isdigit h1" "isdigit h2" "isdigit i1" "isdigit i2"
      "isdigit s1" "isdigit s2"
    and tg: "t1 \<noteq> NUL" "t1 \<noteq> CHR ''~''" "t2 \<noteq> NUL" "t2 \<noteq> CHR ''~''"
      "t3 \<noteq> NUL" "t3 \<noteq> CHR ''~''"
    and sf: "sfx = [] \<or> hd sfx = CHR ''~''"
    and rs: "rest = [] \<or> \<not> isdigit (hd rest)"
    and nm: "name = [d1, d2, CHR ''-'',
                     t1, t2, t3, CHR ''-'', h1, h2, CHR '':'', i1, i2, CHR '':'', s1, s2] @ sfx"
    and rt: "root = [y1, y2, y3, y4, CHR ''/'', m1, m2] @ rest"
    and vd: "validate_date (digits_value 0 [y1, y2, y3, y4]) (digits_value 0 [m1, m2])
               (digits_value 0 [d1, d2])"
    and vt: "validate_time (digits_value 0 [h1, h2]) (digits_value 0 [i1, i2])
               (digits_value 0 [s1, s2])"
  shows "walk_tree_directory root (Tree_entry name es) st =
    (GIT_WALK_OK,
     (snd (create_new_dive
        (utc_mktime \<lparr>tm_sec = digits_value 0 [s1, s2], tm_min = digits_value 0 [i1, i2],
                     tm_hour = digits_value 0 [h1, h2],
                     tm_mday = digits_value 0 [d1, d2],
                     tm_mon = digits_value 0 [m1, m2] - 1,
                     tm_year = digits_value 0 [y1, y2, y3, y4] - 1900\<rparr>)
        (if strlen root = 8 then st\<lparr>active_trip := None\<rparr> else st)))
     \<lparr>active_dive := Some (length (dive_heap st))\<rparr>)"
proof -
  note sc = suffix_cut[OF sf]
  have nd: "\<not> isdigit CHR ''-''" "\<not> isdigit CHR '':''" "\<not> isdigit CHR ''/''"
    by (simp_all add: isdigit_def)
  have dp: "digits_prefix name = 2"
    using dg nd by (simp add: digits_prefix_def nm)
  have c2: "cnth name 2 = CHR ''-''"
    by (simp add: cnth_def nm)
  have nl: "nonunique_length name = 15"
    using dg tg sc(1) by (simp add: nonunique_length_def nm isdigit_simps)
  have c12: "cnth name 12 = CHR '':''" and c6: "cnth name 6 = CHR ''-''"
    by (simp_all add: cnth_def nm)
  have hms: "sscanf_ints CHR '':'' 2 (cdrop name 7) =
      [digits_value 0 [h1, h2], digits_value 0 [i1, i2], digits_value 0 [s1, s2]]"
    using sscanf_ints_three[of "[h1, h2]" "[i1, i2]" "[s1, s2]" "CHR '':''" sfx] dg nd sc(2)
    by (simp add: cdrop_def nm)
  have ym: "sscanf_ints CHR ''/'' 1 root =
      [digits_value 0 [y1, y2, y3, y4], digits_value 0 [m1, m2]]"
    using sscanf_ints_two[of "[y1, y2, y3, y4]" "[m1, m2]" "CHR ''/''" rest] dg nd rs
    by (simp add: rt)
  have ad: "atoi (cdrop name 0) = digits_value 0 [d1, d2]"
    using atoi_digits[of "[d1, d2]" "drop 2 name"] dg nd
    by (simp add: cdrop_def nm)
  have w: "walk_tree_directory root (Tree_entry name es) st = dive_directory root name 7 st"
    using dp c2 nl c12 by (simp add: walk_tree_directory_def Let_def)
  show ?thesis
    unfolding w
    by (rule dive_directory_accept[where ?y0.0 = "digits_value 0 [y1, y2, y3, y4]"
           and ?m0.0 = "digits_value 0 [m1, m2]"])
       (insert vd vt ym, simp_all add: c6 hms ad del: sscanf_ints.simps)
qed

lemma digits_field_2:
  assumes "digits_field 2 s"
  obtains a b where "s = [a, b]" "isdigit a" "isdigit b"
  using assms by (auto simp: digits_field_def numeral_2_eq_2 length_Suc_conv)

lemma digits_field_4:
  assumes "digits_field 4 s"
  obtains a b c d where "s = [a, b, c, d]" "isdigit a" "isdigit b" "isdigit c" "isdigit d"
  using assms by (auto simp: digits_field_def eval_nat_numeral length_Suc_conv)

lemma tag_field_3:
  assumes "tag_field t"
  obtains a b c where "t = [a, b, c]" "a \<noteq> NUL" "a \<noteq> CHR ''~''" "b \<noteq> NUL" "b \<noteq> CHR ''~''"
    "c \<noteq> NUL" "c \<noteq> CHR ''~''"
  using assms by (auto simp: tag_field_def eval_nat_numeral length_Suc_conv)

text \<open>
  Claim C4. A Record directory named \<open>YYYY-MM-DD-SSS-HH:MM:SS\<close>, with or without a
  unique suffix, whose date and time pass validation, is accepted under any path
  prefix, and its Record is built from the \<open>struct tm\<close> that holds the literal fields
  of the name: the seconds, minutes, hours and day as written, the month less one and
  the year less 1900, as \<open>struct tm\<close> counts them. The directory \<open>DD-SSS-HH:MM:SS\<close>
  under a path prefix that starts \<open>YYYY/MM\<close> is accepted with the same \<open>struct tm\<close>:
  its year and month are those of the prefix.
\<close>

theorem record_directory_decodes_fields:
  assumes "digits_field 4 y" and "digits_field 2 mo" and "digits_field 2 d"
    and "tag_field tag"
    and "digits_field 2 h" and "digits_field 2 mi" and "digits_field 2 s"
    and "unique_suffix sfx"
    and "rest = [] \<or> \<not> isdigit (hd rest)"
    and "validate_date (digits_value 0 y) (digits_value 0 mo) (digits_value 0 d)"
    and "validate_time (digits_value 0 h) (digits_value 0 mi) (digits_value 0 s)"
  shows
    "walk_tree_directory root
       (Tree_entry (y @ ''-'' @ mo @ ''-'' @ d @ ''-'' @ tag @ ''-'' @ h @ '':'' @ mi @ '':'' @ s @ sfx)
          es) st =
     (GIT_WALK_OK,
      (snd (create_new_dive
         (utc_mktime \<lparr>tm_sec = digits_value 0 s, tm_min = digits_value 0 mi,
                      tm_hour = digits_value 0 h, tm_mday = digits_value 0 d,
                      tm_mon = digits_value 0 mo - 1, tm_year = digits_value 0 y - 1900\<rparr>)
         (if strlen root = 8 then st\<lparr>active_trip := None\<rparr> else st)))
      \<lparr>active_dive := Some (length (dive_heap st))\<rparr>)
   \<and> walk_tree_directory (y @ ''/'' @ mo @ rest)
       (Tree_entry (d @ ''-'' @ tag @ ''-'' @ h @ '':'' @ mi @ '':'' @ s @ sfx) es) st =
     (GIT_WALK_OK,
      (snd (create_new_dive
         (utc_mktime \<lparr>tm_sec = digits_value 0 s, tm_min = digits_value 0 mi,
                      tm_hour = digits_value 0 h, tm_mday = digits_value 0 d,
                      tm_mon = digits_value 0 mo - 1, tm_year = digits_value 0 y - 1900\<rparr>)
         (if strlen (y @ ''/'' @ mo @ rest) = 8 then st\<lparr>active_trip := None\<rparr> else st)))
      \<lparr>active_dive := Some (length (dive_heap st))\<rparr>)"
proof -
  from assms(1) obtain y1 y2 y3 y4 where y: "y = [y1, y2, y3, y4]"
    "isdigit y1" "isdigit y2" "isdigit y3" "isdigit y4" by (rule digits_field_4)
  from assms(2) obtain m1 m2 where mo: "mo = [m1, m2]" "isdigit m1" "isdigit m2"
    by (rule digits_field_2)
  from assms(3) obtain d1 d2 where d: "d = [d1, d2]" "isdigit d1" "isdigit d2"
    by (rule digits_field_2)
  from assms(4) obtain t1 t2 t3 where t: "tag = [t1, t2, t3]"
    "t1 \<noteq> NUL" "t1 \<noteq> CHR ''~''" "t2 \<noteq> NUL" "t2 \<noteq> CHR ''~''" "t3 \<noteq> NUL" "t3 \<noteq> CHR ''~''"
    by (rule tag_field_3)
  from assms(5) obtain h1 h2 where h: "h = [h1, h2]" "isdigit h1" "isdigit h2"
    by (rule digits_field_2)
  from assms(6) obtain i1 i2 where mi: "mi = [i1, i2]" "isdigit i1" "isdigit i2"
    by (rule digits_field_2)
  from assms(7) obtain s1 s2 where s: "s = [s1, s2]" "isdigit s1" "isdigit s2"
    by (rule digits_field_2)
  have sf: "sfx = [] \<or> hd sfx = CHR ''~''" using assms(8) by (simp add: unique_suffix_def)
  have vd: "validate_date (digits_value 0 [y1, y2, y3, y4]) (digits_value 0 [m1, m2])
               (digits_value 0 [d1, d2])"
    using assms(10) unfolding y(1) mo(1) d(1) .
  have vt: "validate_time (digits_value 0 [h1, h2]) (digits_value 0 [i1, i2])
               (digits_value 0 [s1, s2])"
    using assms(11) unfolding h(1) mi(1) s(1) .
  have full: "y @ ''-'' @ mo @ ''-'' @ d @ ''-'' @ tag @ ''-'' @ h @ '':'' @ mi @ '':'' @ s @ sfx =
      [y1, y2, y3, y4, CHR ''-'', m1, m2, CHR ''-'', d1, d2, CHR ''-'',
       t1, t2, t3, CHR ''-'', h1, h2, CHR '':'', i1, i2, CHR '':'', s1, s2] @ sfx"
    by (simp add: y(1) mo(1) d(1) t(1) h(1) mi(1) s(1))
  have short: "d @ ''-'' @ tag @ ''-'' @ h @ '':'' @ mi @ '':'' @ s @ sfx =
      [d1, d2, CHR ''-'',
       t1, t2, t3, CHR ''-'', h1, h2, CHR '':'', i1, i2, CHR '':'', s1, s2] @ sfx"
    by (simp add: d(1) t(1) h(1) mi(1) s(1))
  have rt: "y @ ''/'' @ mo @ rest = [y1, y2, y3, y4, CHR ''/'', m1, m2] @ rest"
    by (simp add: y(1) mo(1))
  note a = record_name_full[OF y(2-5) mo(2,3) d(2,3) h(2,3) mi(2,3) s(2,3) t(2-7) sf full vd vt,
      of root es st]
  note b = record_name_short[OF y(2-5) mo(2,3) d(2,3) h(2,3) mi(2,3) s(2,3) t(2-7) sf
      assms(9) short rt vd vt, of es st]
  show ?thesis using a b unfolding y(1) mo(1) d(1) h(1) mi(1) s(1) by simp
qed

text \<open>
  \<open>2023-07-15-001-10:30:00~ab12\<close> under \<open>no/where/\<close> and \<open>15-001-10:30:00~ab12\<close>
  under \<open>2023/07/\<close> both give the fields 2023, 7, 15, 10, 30, 0.
\<close>

theorem record_directory_decodes_fields_witness:
  "digits_field 4 ''2023'' \<and> digits_field 2 ''07'' \<and> digits_field 2 ''15''
   \<and> tag_field ''001''
   \<and> digits_field 2 ''10'' \<and> digits_field 2 ''30'' \<and> digits_field 2 ''00''
   \<and> unique_suffix ''~ab12''
   \<and> validate_date 2023 7 15 \<and> validate_time 10 30 0
   \<and> walk_tree_directory ''no/where/'' (Tree_entry ''2023-07-15-001-10:30:00~ab12'' [])
        initial_state =
       (GIT_WALK_OK,
        \<lparr>dive_heap =
           [\<lparr>dive_when = utc_mktime \<lparr>tm_sec = 0, tm_min = 30, tm_hour = 10,
                                     tm_mday = 15, tm_mon = 6, tm_year = 123\<rparr>,
             number = None, divetrip = None\<rparr>],
         trip_heap = [], dive_table = [0],
         active_dive = Some 0, active_trip = None, errors = []\<rparr>)
   \<and> walk_tree_directory ''2023/07/'' (Tree_entry ''15-001-10:30:00~ab12'' [])
        initial_state =
       (GIT_WALK_OK,
        \<lparr>dive_heap =
           [\<lparr>dive_when = utc_mktime \<lparr>tm_sec = 0, tm_min = 30, tm_hour = 10,
                                     tm_mday = 15, tm_mon = 6, tm_year = 123\<rparr>,
             number = None, divetrip = None\<rparr>],
         trip_heap = [], dive_table = [0],
         active_dive = Some 0, active_trip = None, errors = []\<rparr>)"
proof -
  have f: "digits_field 4 ''2023''" "digits_field 2 ''07''" "digits_field 2 ''15''"
    "tag_field ''001''"
    "digits_field 2 ''10''" "digits_field 2 ''30''" "digits_field 2 ''00''"
    "unique_suffix ''~ab12''"
    by (simp_all add: digits_field_def tag_field_def unique_suffix_def isdigit_def)
  have r: "''/'' = [] \<or> \<not> isdigit (hd ''/'')"
    by (simp add: isdigit_def)
  have v: "digits_value 0 ''2023'' = 2023" "digits_value 0 ''07'' = 7"
    "digits_value 0 ''15'' = 15" "digits_value 0 ''10'' = 10" "digits_value 0 ''30'' = 30"
    "digits_value 0 ''00'' = 0"
    by (simp_all add: digit_val_def)
  have vd: "validate_date 2023 7 15" and vt: "validate_time 10 30 0"
    by (simp_all add: validate_date_def validate_time_def)
  have vd': "validate_date (digits_value 0 ''2023'') (digits_value 0 ''07'')
               (digits_value 0 ''15'')"
    unfolding v by (rule vd)
  have vt': "validate_time (digits_value 0 ''10'') (digits_value 0 ''30'')
               (digits_value 0 ''00'')"
    unfolding v by (rule vt)
  have l: "strlen ''no/where/'' \<noteq> 8" "strlen ''2023/07/'' = 8"
    by (simp_all add: strlen_def)
  have c: "\<And>w. create_new_dive w initial_state =
      (0, \<lparr>dive_heap = [\<lparr>dive_when = w, number = None, divetrip = None\<rparr>],
           trip_heap = [], dive_table = [0],
           active_dive = None, active_trip = None, errors = []\<rparr>)"
    "initial_state\<lparr>active_trip := None\<rparr> = initial_state"
    "length (dive_heap initial_state) = 0"
    by (simp_all add: create_new_dive_None initial_state_def)
  note t = record_directory_decodes_fields
    [OF f r vd' vt', where root = "''no/where/''" and es = "[]" and st = initial_state]
  show ?thesis
    using t f vd vt unfolding v by (simp add: l c)
qed

section \<open>Decoding a Group directory\<close>

lemma isalpha_simps:
  "isalpha c \<Longrightarrow> c \<noteq> CHR '':''"
  "isalpha c \<Longrightarrow> c \<noteq> NUL"
  "isalpha c \<Longrightarrow> c \<noteq> CHR ''~''"
  by (auto simp: isalpha_def)

lemma group_name_no_colon:
  assumes "list_all isalpha al" and "isdigit d1" and "isdigit d2"
  shows "([d1, d2, CHR ''-''] @ al @ sfx) ! length al \<noteq> CHR '':''"
proof -
  consider "length al = 0" | "length al = 1" | "length al = 2" | "3 \<le> length al"
    by linarith
  then show ?thesis
  proof cases
    case 1
    then show ?thesis using assms(2) by (simp add: isdigit_simps)
  next
    case 2
    then show ?thesis using assms(3) by (simp add: isdigit_simps)
  next
    case 3
    then show ?thesis by simp
  next
    case 4
    then obtain k where k: "length al = 3 + k" using le_iff_add by blast
    have "([d1, d2, CHR ''-''] @ (al @ sfx)) ! (length [d1, d2, CHR ''-''] + k) = (al @ sfx) ! k"
      by (rule nth_append_length_plus)
    moreover have "(al @ sfx) ! k = al ! k" using k by (simp add: nth_append)
    moreover have "al ! k \<in> set al" using k by simp
    ultimately show ?thesis using assms(1) k by (auto simp: list_all_iff isalpha_simps)
  qed
qed

lemma group_name_length:
  assumes "list_all isalpha al" and "isdigit d1" and "isdigit d2"
    and "sfx = [] \<or> hd sfx = CHR ''~''"
  shows "nonunique_length ([d1, d2, CHR ''-''] @ al @ sfx) = 3 + int (length al)"
proof -
  let ?Q = "\<lambda>c. c \<noteq> NUL \<and> c \<noteq> CHR ''~''"
  have n: "\<not> isalpha NUL" "\<not> isalpha CHR ''~''" "\<not> isdigit NUL" "\<not> isdigit CHR ''~''"
    by (simp_all add: isalpha_def isdigit_def)
  have q: "\<And>c. c \<in> set ([d1, d2, CHR ''-''] @ al) \<Longrightarrow> ?Q c"
    using assms(1-3) n by (auto simp: list_all_iff)
  have "takeWhile ?Q (([d1, d2, CHR ''-''] @ al) @ sfx) = [d1, d2, CHR ''-''] @ al"
    using takeWhile_append2[of "[d1, d2, CHR ''-''] @ al" ?Q sfx] q suffix_cut(1)[OF assms(4)]
    by simp
  then have "length (takeWhile ?Q ([d1, d2, CHR ''-''] @ al @ sfx)) = 3 + length al"
    by simp
  then show ?thesis unfolding nonunique_length_def by simp
qed

lemma utc_mktime_midnight:
  assumes "1900 < yyyy"
  shows "utc_mktime \<lparr>tm_sec = 0, tm_min = 0, tm_hour = 0,
                      tm_mday = dd, tm_mon = mm - 1, tm_year = yyyy\<rparr> =
         utc_seconds yyyy mm dd 0 0 0"
  using assms by (simp add: utc_mktime_def)

text \<open>
  Claim C6, as the code has it. A Group directory \<open>DD-name\<close> with an alphabetic
  name, with or without a unique suffix, under a path prefix that starts \<open>YYYY/MM\<close>,
  whose date passes validation: the directory is accepted, a Group is added to the
  store and becomes the active Group. Its anchor is \<open>utc_mktime\<close> of the \<open>struct tm\<close> with the day \<open>DD\<close>,
  the month \<open>MM - 1\<close>, the year \<open>YYYY\<close> as \<open>create_new_trip\<close> passes it, and the time
  of day zero; in the model of \<open>utc_mktime\<close> that is midnight UTC of the date.
\<close>

theorem group_directory_creates_group:
  assumes "digits_field 4 y" and "digits_field 2 mo" and "digits_field 2 d"
    and "list_all isalpha al" and "unique_suffix sfx"
    and "rest = [] \<or> \<not> isdigit (hd rest)"
    and "validate_date (digits_value 0 y) (digits_value 0 mo) (digits_value 0 d)"
  shows
    "walk_tree_directory (y @ ''/'' @ mo @ rest) (Tree_entry (d @ ''-'' @ al @ sfx) es) st =
       (GIT_WALK_OK,
        st\<lparr>trip_heap := trip_heap st @
              [\<lparr>trip_when =
                   utc_mktime \<lparr>tm_sec = 0, tm_min = 0, tm_hour = 0,
                               tm_mday = digits_value 0 d, tm_mon = digits_value 0 mo - 1,
                               tm_year = digits_value 0 y\<rparr>,
                trip_dives = []\<rparr>],
           active_trip := Some (length (trip_heap st))\<rparr>)
     \<and> utc_mktime \<lparr>tm_sec = 0, tm_min = 0, tm_hour = 0,
                   tm_mday = digits_value 0 d, tm_mon = digits_value 0 mo - 1,
                   tm_year = digits_value 0 y\<rparr> =
         utc_seconds (digits_value 0 y) (digits_value 0 mo) (digits_value 0 d) 0 0 0"
proof -
  from assms(1) obtain y1 y2 y3 y4 where y: "y = [y1, y2, y3, y4]"
    "isdigit y1" "isdigit y2" "isdigit y3" "isdigit y4" by (rule digits_field_4)
  from assms(2) obtain m1 m2 where mo: "mo = [m1, m2]" "isdigit m1" "isdigit m2"
    by (rule digits_field_2)
  from assms(3) obtain d1 d2 where d: "d = [d1, d2]" "isdigit d1" "isdigit d2"
    by (rule digits_field_2)
  have sf: "sfx = [] \<or> hd sfx = CHR ''~''" using assms(5) by (simp add: unique_suffix_def)
  have nd: "\<not> isdigit CHR ''-''" "\<not> isdigit CHR ''/''"
    by (simp_all add: isdigit_def)
  define name where "name = d @ ''-'' @ al @ sfx"
  define root where "root = y @ ''/'' @ mo @ rest"
  have nm: "name = [d1, d2, CHR ''-''] @ al @ sfx" by (simp add: name_def d(1))
  have dp: "digits_prefix name = 2"
    using d(2,3) nd by (simp add: digits_prefix_def nm)
  have c2: "cnth name 2 = CHR ''-''"
    by (simp add: cnth_def nm)
  have nl: "nonunique_length name = 3 + int (length al)"
    unfolding nm by (rule group_name_length[OF assms(4) d(2,3) sf])
  have lt: "length al < length name" by (simp add: nm)
  have "cnth name (nonunique_length name - 3) = name ! length al"
    unfolding nl using lt by (simp add: cnth_def)
  then have nc: "cnth name (nonunique_length name - 3) \<noteq> CHR '':''"
    using group_name_no_colon[OF assms(4) d(2,3), of sfx] by (simp add: nm)
  have w: "walk_tree_directory root (Tree_entry name es) st = dive_trip_directory root name st"
    using dp c2 nc by (simp add: walk_tree_directory_def Let_def)
  have ne: "y \<noteq> []" "list_all isdigit y" "mo \<noteq> []" "list_all isdigit mo"
    "d \<noteq> []" "list_all isdigit d"
    using assms(1-3) by (auto simp: digits_field_def)
  have le: "length y \<le> 9" "length mo \<le> 9" "length d \<le> 9"
    using assms(1-3) by (simp_all add: digits_field_def)
  have ym: "sscanf_ints CHR ''/'' 1 root = [digits_value 0 y, digits_value 0 mo]"
    using sscanf_ints_two[OF ne(1-4) nd(2) assms(6) le(1,2)]
    unfolding root_def by (simp del: sscanf_ints.simps)
  have "atoi (d @ ''-'' @ al @ sfx) = digits_value 0 d"
    by (rule atoi_digits[OF ne(5,6) _ le(3)]) (simp add: nd)
  then have ad: "atoi name = digits_value 0 d"
    by (simp add: name_def)
  have t: "dive_trip_directory root name st =
       (GIT_WALK_OK,
        st\<lparr>trip_heap := trip_heap st @
              [\<lparr>trip_when =
                   utc_mktime \<lparr>tm_sec = 0, tm_min = 0, tm_hour = 0,
                               tm_mday = digits_value 0 d, tm_mon = digits_value 0 mo - 1,
                               tm_year = digits_value 0 y\<rparr>,
                trip_dives = []\<rparr>],
           active_trip := Some (length (trip_heap st))\<rparr>)"
    using ym ad assms(7)
    by (simp add: dive_trip_directory_def create_new_trip_def Let_def del: sscanf_ints.simps)
  have "1900 < digits_value 0 y" using assms(7) by (simp add: validate_date_def)
  then have u: "utc_mktime \<lparr>tm_sec = 0, tm_min = 0, tm_hour = 0,
                   tm_mday = digits_value 0 d, tm_mon = digits_value 0 mo - 1,
                   tm_year = digits_value 0 y\<rparr> =
         utc_seconds (digits_value 0 y) (digits_value 0 mo) (digits_value 0 d) 0 0 0"
    by (rule utc_mktime_midnight)
  have "walk_tree_directory root (Tree_entry name es) st =
       (GIT_WALK_OK,
        st\<lparr>trip_heap := trip_heap st @
              [\<lparr>trip_when =
                   utc_mktime \<lparr>tm_sec = 0, tm_min = 0, tm_hour = 0,
                               tm_mday = digits_value 0 d, tm_mon = digits_value 0 mo - 1,
                               tm_year = digits_value 0 y\<rparr>,
                trip_dives = []\<rparr>],
           active_trip := Some (length (trip_heap st))\<rparr>)"
    unfolding w by (rule t)
  then show ?thesis unfolding name_def root_def using u by (rule conjI)
qed

text \<open>\<open>13-someTrip\<close> under \<open>2023/07/\<close> is anchored at 2023-07-13T00:00:00Z.\<close>

theorem group_directory_creates_group_witness:
  "digits_field 4 ''2023'' \<and> digits_field 2 ''07'' \<and> digits_field 2 ''13''
   \<and> list_all isalpha ''someTrip'' \<and> unique_suffix []
   \<and> validate_date 2023 7 13
   \<and> walk_tree_directory ''2023/07/'' (Tree_entry ''13-someTrip'' []) initial_state =
       (GIT_WALK_OK,
        \<lparr>dive_heap = [], trip_heap = [\<lparr>trip_when = 1689206400, trip_dives = []\<rparr>],
         dive_table = [], active_dive = None, active_trip = Some 0, errors = []\<rparr>)
   \<and> utc_seconds 2023 7 13 0 0 0 = 1689206400"
proof -
  have f: "digits_field 4 ''2023''" "digits_field 2 ''07''" "digits_field 2 ''13''"
    "list_all isalpha ''someTrip''" "unique_suffix []"
    by (simp_all add: digits_field_def unique_suffix_def isdigit_def isalpha_def)
  have r: "''/'' = [] \<or> \<not> isdigit (hd ''/'')"
    by (simp add: isdigit_def)
  have v: "digits_value 0 ''2023'' = 2023" "digits_value 0 ''07'' = 7"
    "digits_value 0 ''13'' = 13"
    by (simp_all add: digit_val_def)
  have vd: "validate_date 2023 7 13"
    by (simp add: validate_date_def)
  have vd': "validate_date (digits_value 0 ''2023'') (digits_value 0 ''07'')
               (digits_value 0 ''13'')"
    unfolding v by (rule vd)
  have u: "utc_seconds 2023 7 13 0 0 0 = 1689206400"
    by (simp add: utc_seconds_def days_before_year_def days_before_month_def leap_year_def)
  note t = group_directory_creates_group
    [OF f r vd', where es = "[]" and st = initial_state]
  have w: "utc_mktime \<lparr>tm_sec = 0, tm_min = 0, tm_hour = 0,
                   tm_mday = 13, tm_mon = 7 - 1, tm_year = 2023\<rparr> = 1689206400"
    using t[THEN conjunct2] unfolding v u .
  have g: "walk_tree_directory ''2023/07/'' (Tree_entry ''13-someTrip'' []) initial_state =
       (GIT_WALK_OK,
        \<lparr>dive_heap = [], trip_heap = [\<lparr>trip_when = 1689206400, trip_dives = []\<rparr>],
         dive_table = [], active_dive = None, active_trip = Some 0, errors = []\<rparr>)"
    using t[THEN conjunct1] unfolding v w by (simp add: initial_state_def)
  show ?thesis
    using f vd g u by (intro conjI)
qed

text \<open>
  Claim C6 as the spec states it fails for a Group directory whose date does not pass
  validation: \<open>13-someTrip\<close> under \<open>1960/07/\<close> and \<open>45-someTrip\<close> under
  \<open>2023/07/\<close> have the shape of a Group directory and are skipped; no Group is
  created and none becomes active.
\<close>

theorem group_directory_invalid_date_counterexample:
  "digits_field 4 ''1960'' \<and> digits_field 2 ''07'' \<and> digits_field 2 ''13''
   \<and> list_all isalpha ''someTrip''
   \<and> walk_tree_directory ''1960/07/'' (Tree_entry ''13-someTrip'' []) initial_state
       = (GIT_WALK_SKIP, initial_state)
   \<and> digits_field 2 ''45''
   \<and> walk_tree_directory ''2023/07/'' (Tree_entry ''45-someTrip'' []) initial_state
       = (GIT_WALK_SKIP, initial_state)
   \<and> trip_heap initial_state = [] \<and> active_trip initial_state = None"
  by code_simp

section \<open>Walking a tree twice\<close>



lemma rebase_sel [simp]:
  "dive_heap (rebase b a) = dive_heap b @ map (shift_dive (length (trip_heap b))) (dive_heap a)"
  "trip_heap (rebase b a) = trip_heap b @ map (shift_trip (length (dive_heap b))) (trip_heap a)"
  "dive_table (rebase b a) = dive_table b @ map (\<lambda>d. length (dive_heap b) + d) (dive_table a)"
  "active_dive (rebase b a) = map_option (\<lambda>d. length (dive_heap b) + d) (active_dive a)"
  "active_trip (rebase b a) = map_option (\<lambda>t. length (trip_heap b) + t) (active_trip a)"
  "errors (rebase b a) = errors b @
        map (shift_error (length (dive_heap b)) (length (trip_heap b))) (errors a)"
  by (simp_all add: rebase_def)

lemma state_eqI:
  fixes s t :: state
  assumes "dive_heap s = dive_heap t" "trip_heap s = trip_heap t" "dive_table s = dive_table t"
    "active_dive s = active_dive t" "active_trip s = active_trip t" "errors s = errors t"
  shows "s = t"
  using assms by simp



lemma rebase_set_trip:
  "(rebase b a)\<lparr>active_trip := Some (length (trip_heap b) + t)\<rparr> =
     rebase b (a\<lparr>active_trip := Some t\<rparr>)"
  by (rule state_eqI) simp_all























end
